theory Spec2Isabelle
  imports Main "HOL-Library.AList" "HOL-Library.Multiset"
begin

section \<open>Data model\<close>

text \<open>
  The territory application keeps one document (\<open>AppData\<close>) in React state and
  rewrites it through small mutators. The model follows the TypeScript declarations of
  the component: an interface is a record, the union of role names is a datatype, and
  a \<open>Record<string, T>\<close> object is an association list from keys to values whose keys
  are pairwise distinct (a property is stored once). Reading \<open>obj[key]\<close> is
  \<open>map_of\<close>, the assignment \<open>obj[key] = v\<close> is \<open>AList.update\<close> (an existing key
  keeps its place, a new key is added at the end), \<open>delete obj[key]\<close> is
  \<open>AList.delete\<close>. JavaScript enumerates the integer-like keys of an object first, in
  ascending order, and then the other keys as they were added; the list order stands
  for that enumeration order, and nothing stated below depends on it (lemma
  \<open>summary_independent_of_key_order\<close>).

  JavaScript numbers are modelled as \<open>int\<close>: every number below is a counter, a loop
  index or a house number, and the model agrees with the source as long as they stay
  below \<open>2 ^ 53\<close>. A status code is declared \<open>1 | 2 | 3 | 4\<close>, but the document is
  read from YAML unchecked, so the field is an \<open>int\<close> and the functions say what they do
  with any value.
\<close>

datatype UserRole = Comum | Capitao | Admin | Super_Admin

record HouseRecord =
  status :: int
  chalkNumber :: string
  officialNumber :: string
  "notes" :: string
  lastVisit :: "string option"

record Summary =
  total :: int
  verde :: int
  amarelo :: int
  laranja :: int
  vermelho :: int

record BlockRecord =
  summary :: Summary
  imageUrl :: string
  houses :: "(string \<times> HouseRecord) list"

definition Object_keys :: "(string \<times> 'v) list \<Rightarrow> string list" where
  "Object_keys obj = map fst obj"

definition Object_values :: "(string \<times> 'v) list \<Rightarrow> 'v list" where
  "Object_values obj = map snd obj"

section \<open>Access control\<close>

text \<open>\<open>roleHierarchy\<close> is the table of the source; \<open>hasCapability\<close> compares two entries.\<close>

fun roleHierarchy :: "UserRole \<Rightarrow> int" where
  "roleHierarchy Comum = 0"
| "roleHierarchy Capitao = 1"
| "roleHierarchy Admin = 2"
| "roleHierarchy Super_Admin = 3"

definition hasCapability :: "UserRole \<Rightarrow> UserRole \<Rightarrow> bool" where
  "hasCapability role required = (roleHierarchy role \<ge> roleHierarchy required)"

text \<open>
  The order as the specification words it, Comum < Capitao < Admin < Super Admin: the
  rank of a role is its position in that chain.
\<close>

definition spec_role_order :: "UserRole list" where
  "spec_role_order = [Comum, Capitao, Admin, Super_Admin]"

fun position_from :: "nat \<Rightarrow> 'a list \<Rightarrow> 'a \<Rightarrow> nat" where
  "position_from i [] x = i"
| "position_from i (y # ys) x = (if y = x then i else position_from (Suc i) ys x)"

definition spec_rank :: "UserRole \<Rightarrow> nat" where
  "spec_rank r = position_from 0 spec_role_order r"

section \<open>Aggregate recalculation\<close>

text \<open>
  \<open>recalcBlockSummary\<close> starts from a zero summary, visits \<open>Object.values(block.houses)\<close>
  and stores the result in \<open>block.summary\<close>. \<open>count_house\<close> is the body of the
  \<open>forEach\<close>: four independent \<open>if\<close>s after the increment of \<open>total\<close>. The source
  writes the summary into the block it is given; the model returns the updated block.
\<close>

definition zero_summary :: Summary where
  "zero_summary = \<lparr>total = 0, verde = 0, amarelo = 0, laranja = 0, vermelho = 0\<rparr>"

definition count_house :: "HouseRecord \<Rightarrow> Summary \<Rightarrow> Summary" where
  "count_house house s0 =
     (let s1 = s0\<lparr>total := total s0 + 1\<rparr>;
          s2 = (if status house = 1 then s1\<lparr>verde := verde s1 + 1\<rparr> else s1);
          s3 = (if status house = 2 then s2\<lparr>amarelo := amarelo s2 + 1\<rparr> else s2);
          s4 = (if status house = 3 then s3\<lparr>laranja := laranja s3 + 1\<rparr> else s3)
      in (if status house = 4 then s4\<lparr>vermelho := vermelho s4 + 1\<rparr> else s4))"

definition recalcBlockSummary :: "BlockRecord \<Rightarrow> BlockRecord" where
  "recalcBlockSummary block =
     block\<lparr>summary := fold count_house (Object_values (houses block)) zero_summary\<rparr>"

text \<open>The number of houses of a block that carry a given status.\<close>

definition houses_with_status :: "int \<Rightarrow> BlockRecord \<Rightarrow> int" where
  "houses_with_status v block =
     int (length (filter (\<lambda>house. status house = v) (Object_values (houses block))))"

definition house_count :: "BlockRecord \<Rightarrow> int" where
  "house_count block = int (length (Object_keys (houses block)))"

section \<open>Status cycle\<close>

text \<open>
  \<open>indexOf\<close> is \<open>Array.prototype.indexOf\<close>: the first position of the element, or
  \<open>-1\<close>. The next status is \<open>statusCycle[(currentIndex + 1) % statusCycle.length]\<close>;
  the index read is never out of range (lemma \<open>cycle_index_in_range\<close> below).
  \<open>now\<close> stands for \<open>new Date().toISOString()\<close>, the clock reading of the call.
\<close>

definition statusCycle :: "int list" where
  "statusCycle = [1, 2, 3, 4]"

fun indexOf_from :: "int \<Rightarrow> 'a list \<Rightarrow> 'a \<Rightarrow> int" where
  "indexOf_from i [] x = -1"
| "indexOf_from i (y # ys) x = (if y = x then i else indexOf_from (i + 1) ys x)"

definition indexOf :: "'a list \<Rightarrow> 'a \<Rightarrow> int" where
  "indexOf xs x = indexOf_from 0 xs x"

definition nextStatus :: "int \<Rightarrow> int" where
  "nextStatus st =
     (let currentIndex = indexOf statusCycle st
      in statusCycle ! nat ((currentIndex + 1) mod int (length statusCycle)))"

definition cycle_house :: "string \<Rightarrow> HouseRecord \<Rightarrow> HouseRecord" where
  "cycle_house now house = house\<lparr>status := nextStatus (status house), lastVisit := Some now\<rparr>"

text \<open>
  The mutator of \<open>cycleHouseStatus\<close> on the block it selects. A house id that is not a
  key of the block makes \<open>house.status\<close> throw a TypeError: the result is \<open>None\<close> and
  nothing is published.
\<close>

definition cycleHouseStatus_block :: "string \<Rightarrow> string \<Rightarrow> BlockRecord \<Rightarrow> BlockRecord option" where
  "cycleHouseStatus_block houseId now block =
     (case map_of (houses block) houseId of
        None \<Rightarrow> None
      | Some house \<Rightarrow>
          Some (recalcBlockSummary
            (block\<lparr>houses := AList.update houseId (cycle_house now house) (houses block)\<rparr>)))"

section \<open>Numbers and keys\<close>

text \<open>
  \<open>String_int\<close> is \<open>String(index)\<close> on an integer: its decimal digits, with a minus
  sign below zero. \<open>Number_key\<close> is \<open>Number(key)\<close> followed by the test
  \<open>Number.isFinite\<close>, on the keys this program writes: a key made of decimal
  digits only has its decimal value (leading zeros allowed, as in JavaScript); every
  other key gives \<open>None\<close>, which the callers treat as "not a finite number". That is
  exact for keys JavaScript reads as \<open>NaN\<close>, such as \<open>abc\<close>. The other spellings
  JavaScript accepts as numbers (a sign, a fraction, an exponent, a hexadecimal
  literal, surrounding white space, the empty string) are outside the model, and no
  statement below is about a house under such a key.
\<close>

definition digit_char :: "nat \<Rightarrow> char" where
  "digit_char d = char_of (48 + d)"

fun digits_of :: "nat \<Rightarrow> string" where
  "digits_of n =
     (if n < 10 then [digit_char n] else digits_of (n div 10) @ [digit_char (n mod 10)])"

definition String_int :: "int \<Rightarrow> string" where
  "String_int i = (if i < 0 then CHR ''-'' # digits_of (nat (- i)) else digits_of (nat i))"

definition is_digit :: "char \<Rightarrow> bool" where
  "is_digit c = (48 \<le> (of_char c :: nat) \<and> (of_char c :: nat) \<le> 57)"

definition digit_value :: "char \<Rightarrow> nat" where
  "digit_value c = of_char c - 48"

definition decimal_value :: "string \<Rightarrow> nat" where
  "decimal_value s = foldl (\<lambda>acc c. 10 * acc + digit_value c) 0 s"

definition Number_key :: "string \<Rightarrow> int option" where
  "Number_key key =
     (if key \<noteq> [] \<and> list_all is_digit key then Some (int (decimal_value key)) else None)"

text \<open>
  The loop \<open>for (let index = 1; index <= max; index += 1) body\<close>, started at any
  index, as a function of the state the body updates.
\<close>

function for_index :: "int \<Rightarrow> int \<Rightarrow> (int \<Rightarrow> 's \<Rightarrow> 's) \<Rightarrow> 's \<Rightarrow> 's" where
  "for_index index mx body s =
     (if index \<le> mx then for_index (index + 1) mx body (body index s) else s)"
  by pat_completeness auto
termination
  by (relation "measure (\<lambda>(index, mx, body, s). nat (mx + 1 - index))") auto

section \<open>Mutators on a block\<close>

text \<open>The house literal both \<open>applyChalkSequencing\<close> and \<open>upsertBlock\<close> store under a missing key.\<close>

definition new_house :: "string \<Rightarrow> HouseRecord" where
  "new_house key =
     \<lparr>status = 1, chalkNumber = key, officialNumber = '''', notes = '''', lastVisit = None\<rparr>"

text \<open>
  \<open>applyChalkSequencing\<close>, on the block it selects. \<open>sequence_step\<close> is the body of
  the \<open>for\<close> loop: create the house when \<open>block.houses[key]\<close> is missing, then set
  \<open>chalkNumber\<close>. \<open>prune_step\<close> is the body of the \<open>forEach\<close> over
  \<open>Object.keys(block.houses)\<close>, a list taken before the first deletion, and
  \<open>finite_above\<close> its test \<open>Number.isFinite(num) && num > max\<close>.
\<close>

definition sequence_step :: "int \<Rightarrow> (string \<times> HouseRecord) list \<Rightarrow> (string \<times> HouseRecord) list" where
  "sequence_step index hs =
     (let key = String_int index;
          hs1 = (case map_of hs key of
                   None \<Rightarrow> AList.update key (new_house key) hs
                 | Some house \<Rightarrow> hs)
      in AList.map_entry key (\<lambda>house. house\<lparr>chalkNumber := key\<rparr>) hs1)"

definition finite_above :: "int \<Rightarrow> string \<Rightarrow> bool" where
  "finite_above mx key = (case Number_key key of None \<Rightarrow> False | Some num \<Rightarrow> num > mx)"

definition prune_step :: "int \<Rightarrow> string \<Rightarrow> (string \<times> HouseRecord) list \<Rightarrow> (string \<times> HouseRecord) list" where
  "prune_step mx key hs = (if finite_above mx key then AList.delete key hs else hs)"

definition applyChalkSequencing_block :: "int \<Rightarrow> BlockRecord \<Rightarrow> BlockRecord" where
  "applyChalkSequencing_block mx block =
     (let hs1 = for_index 1 mx sequence_step (houses block);
          hs2 = fold (prune_step mx) (Object_keys hs1) hs1
      in recalcBlockSummary (block\<lparr>houses := hs2\<rparr>))"

text \<open>What resequencing makes of the entry under a key it generates.\<close>

definition sequenced :: "string \<Rightarrow> HouseRecord option \<Rightarrow> HouseRecord" where
  "sequenced key before =
     (case before of None \<Rightarrow> new_house key | Some house \<Rightarrow> house\<lparr>chalkNumber := key\<rparr>)"

text \<open>
  \<open>updateHouseData\<close> stores \<open>{...block.houses[houseId], ...updates}\<close>. \<open>updates\<close> is
  a \<open>Partial<HouseRecord>\<close>: each field is present or not. A field of the result
  comes from \<open>updates\<close> when present there, else from the stored house. When the house
  id is not a key of the block the spread starts from nothing, and the object stored is
  a \<open>HouseRecord\<close> only if \<open>updates\<close> holds all five fields; otherwise it lacks a
  field, there is no record to store, and the model gives \<open>None\<close>.
\<close>

record HouseUpdates =
  upd_status :: "int option"
  upd_chalkNumber :: "string option"
  upd_officialNumber :: "string option"
  upd_notes :: "string option"
  upd_lastVisit :: "string option option"

definition spread_field :: "'a option \<Rightarrow> 'a option \<Rightarrow> 'a option" where
  "spread_field base upd = (case upd of Some v \<Rightarrow> Some v | None \<Rightarrow> base)"

definition spread_house :: "HouseRecord option \<Rightarrow> HouseUpdates \<Rightarrow> HouseRecord option" where
  "spread_house base updates =
     (case (spread_field (map_option status base) (upd_status updates),
            spread_field (map_option chalkNumber base) (upd_chalkNumber updates),
            spread_field (map_option officialNumber base) (upd_officialNumber updates),
            spread_field (map_option notes base) (upd_notes updates),
            spread_field (map_option lastVisit base) (upd_lastVisit updates)) of
        (Some st, Some cn, Some ofn, Some nt, Some lv) \<Rightarrow>
          Some \<lparr>status = st, chalkNumber = cn, officialNumber = ofn, notes = nt, lastVisit = lv\<rparr>
      | _ \<Rightarrow> None)"

definition updateHouseData_block :: "string \<Rightarrow> HouseUpdates \<Rightarrow> BlockRecord \<Rightarrow> BlockRecord option" where
  "updateHouseData_block houseId updates block =
     (case spread_house (map_of (houses block) houseId) updates of
        None \<Rightarrow> None
      | Some house \<Rightarrow>
          Some (recalcBlockSummary (block\<lparr>houses := AList.update houseId house (houses block)\<rparr>)))"

text \<open>
  The block part of \<open>upsertBlock\<close>: a missing block starts with the summary literal of
  the source and no houses; the image is stored; the loop adds the missing houses
  (it leaves \<open>chalkNumber\<close> of an existing house alone and deletes nothing).
\<close>

definition upsert_step :: "int \<Rightarrow> (string \<times> HouseRecord) list \<Rightarrow> (string \<times> HouseRecord) list" where
  "upsert_step index hs =
     (let key = String_int index
      in case map_of hs key of
           None \<Rightarrow> AList.update key (new_house key) hs
         | Some house \<Rightarrow> hs)"

definition upsertBlock_block :: "string \<Rightarrow> int \<Rightarrow> BlockRecord option \<Rightarrow> BlockRecord" where
  "upsertBlock_block url maxChalk existing =
     (let block0 = (case existing of
                      None \<Rightarrow>
                        \<lparr>summary = \<lparr>total = maxChalk, verde = maxChalk, amarelo = 0,
                                      laranja = 0, vermelho = 0\<rparr>,
                         imageUrl = url, houses = []\<rparr>
                    | Some block \<Rightarrow> block);
          block1 = block0\<lparr>imageUrl := url\<rparr>;
          block2 = block1\<lparr>houses := for_index 1 maxChalk upsert_step (houses block1)\<rparr>
      in recalcBlockSummary block2)"

section \<open>The document and its mutators\<close>

record TerritoryRecord =
  territory_name :: string
  territory_status :: string
  lastUse :: string
  blocks :: "(string \<times> BlockRecord) list"

record AppConfig =
  superAdminEmail :: string
  userRoles :: "(string \<times> UserRole) list"

record AppData =
  appConfig :: AppConfig
  territories :: "(string \<times> TerritoryRecord) list"


definition with_block ::
  "string \<Rightarrow> string \<Rightarrow> (BlockRecord \<Rightarrow> BlockRecord option) \<Rightarrow> AppData \<Rightarrow> AppData option" where
  "with_block territoryId blockId f draft =
     (case map_of (territories draft) territoryId of
        None \<Rightarrow> None
      | Some territory \<Rightarrow>
          (case map_of (blocks territory) blockId of
             None \<Rightarrow> None
           | Some block \<Rightarrow>
               (case f block of
                  None \<Rightarrow> None
                | Some block' \<Rightarrow>
                    Some (draft\<lparr>territories :=
                      AList.update territoryId
                        (territory\<lparr>blocks := AList.update blockId block' (blocks territory)\<rparr>)
                        (territories draft)\<rparr>))))"

definition cycleHouseStatus_mutator :: "string \<Rightarrow> string \<Rightarrow> string \<Rightarrow> string \<Rightarrow> AppData \<Rightarrow> AppData option" where
  "cycleHouseStatus_mutator territoryId blockId houseId now draft =
     with_block territoryId blockId (cycleHouseStatus_block houseId now) draft"

definition updateHouseData_mutator ::
  "string \<Rightarrow> string \<Rightarrow> string \<Rightarrow> HouseUpdates \<Rightarrow> AppData \<Rightarrow> AppData option" where
  "updateHouseData_mutator territoryId blockId houseId updates draft =
     with_block territoryId blockId (updateHouseData_block houseId updates) draft"

definition applyChalkSequencing_mutator :: "string \<Rightarrow> string \<Rightarrow> int \<Rightarrow> AppData \<Rightarrow> AppData option" where
  "applyChalkSequencing_mutator territoryId blockId mx draft =
     with_block territoryId blockId (\<lambda>block. Some (applyChalkSequencing_block mx block)) draft"

text \<open>
  \<open>upsertBlock\<close>: \<open>payload.blockId\<close> is the id of the block to update, or null for a
  new block, whose id is then one more than the largest numeric id in use
  (\<open>Math.max(0, ...ids.map(Number)) + 1\<close>, which is \<open>NaN\<close> as soon as one id is not a
  number). The ids are read with \<open>Number_key\<close>, within the limits stated there; the ids
  this function writes are made of digits only.
\<close>

record UpsertBlockPayload =
  payload_territoryId :: string
  payload_blockId :: "string option"
  payload_imageUrl :: string
  payload_maxChalk :: int

definition next_block_id :: "(string \<times> BlockRecord) list \<Rightarrow> string" where
  "next_block_id bs =
     (case those (map Number_key (Object_keys bs)) of
        None \<Rightarrow> ''NaN''
      | Some nums \<Rightarrow> String_int (fold max nums 0 + 1))"

definition upsertBlock_mutator :: "UpsertBlockPayload \<Rightarrow> AppData \<Rightarrow> AppData option" where
  "upsertBlock_mutator payload draft =
     (case map_of (territories draft) (payload_territoryId payload) of
        None \<Rightarrow> None
      | Some territory \<Rightarrow>
          (let blockId = (case payload_blockId payload of
                            Some b \<Rightarrow> b
                          | None \<Rightarrow> next_block_id (blocks territory));
               block' = upsertBlock_block (payload_imageUrl payload) (payload_maxChalk payload)
                          (map_of (blocks territory) blockId)
           in Some (draft\<lparr>territories :=
                AList.update (payload_territoryId payload)
                  (territory\<lparr>blocks := AList.update blockId block' (blocks territory)\<rparr>)
                  (territories draft)\<rparr>)))"

section \<open>Transport codec\<close>

text \<open>
  The document travels as base64 text. A JavaScript string is a sequence of UTF-16 code
  units, here a list of numbers below \<open>65536\<close> (\<open>js_string\<close>); bytes are numbers
  below \<open>256\<close>. The house keys and text fields above are plain \<open>string\<close>s; only the
  codec needs the code units. The platform functions the two source functions call are
  modelled after their standards:

  \<^item> \<open>TextEncoder.encode\<close> first turns the string into Unicode scalar values, pairing
    surrogates and replacing an unpaired one by U+FFFD, then writes UTF-8;
  \<^item> \<open>btoa\<close> throws when a code unit is above 255 (\<open>None\<close>), else writes base64 with
    padding;
  \<^item> \<open>atob\<close> is the forgiving base64 decoder: it drops ASCII white space, drops one or
    two padding signs when the length is a multiple of four, fails on a length of
    \<open>1\<close> modulo four and on a character outside the alphabet, and discards the
    left-over bits of a last short group;
  \<^item> \<open>new TextDecoder().decode\<close> is the UTF-8 decoder in replacement mode, followed
    by the removal of a leading U+FEFF (the decoder is built with the default
    \<open>ignoreBOM: false\<close>), followed by the conversion to UTF-16.
\<close>

type_synonym code_units = "nat list"

definition js_string :: "code_units \<Rightarrow> bool" where
  "js_string s = list_all (\<lambda>c. c < 65536) s"

definition is_lead_surrogate :: "nat \<Rightarrow> bool" where
  "is_lead_surrogate c = (0xD800 \<le> c \<and> c \<le> 0xDBFF)"

definition is_trail_surrogate :: "nat \<Rightarrow> bool" where
  "is_trail_surrogate c = (0xDC00 \<le> c \<and> c \<le> 0xDFFF)"

fun to_scalar_values :: "code_units \<Rightarrow> nat list" where
  "to_scalar_values [] = []"
| "to_scalar_values [c] =
     (if is_lead_surrogate c \<or> is_trail_surrogate c then [0xFFFD] else [c])"
| "to_scalar_values (c # d # ds) =
     (if is_lead_surrogate c then
        (if is_trail_surrogate d
         then (0x10000 + (c - 0xD800) * 0x400 + (d - 0xDC00)) # to_scalar_values ds
         else 0xFFFD # to_scalar_values (d # ds))
      else if is_trail_surrogate c then 0xFFFD # to_scalar_values (d # ds)
      else c # to_scalar_values (d # ds))"

definition utf8_bytes :: "nat \<Rightarrow> nat list" where
  "utf8_bytes cp =
     (if cp < 0x80 then [cp]
      else if cp < 0x800 then [0xC0 + cp div 64, 0x80 + cp mod 64]
      else if cp < 0x10000 then
        [0xE0 + cp div 4096, 0x80 + (cp div 64) mod 64, 0x80 + cp mod 64]
      else [0xF0 + cp div 262144, 0x80 + (cp div 4096) mod 64,
            0x80 + (cp div 64) mod 64, 0x80 + cp mod 64])"

definition TextEncoder_encode :: "code_units \<Rightarrow> nat list" where
  "TextEncoder_encode payload = concat (map utf8_bytes (to_scalar_values payload))"

definition String_fromCharCode :: "nat \<Rightarrow> nat" where
  "String_fromCharCode v = v mod 65536"

definition b64_symbol :: "nat \<Rightarrow> nat" where
  "b64_symbol v =
     (if v < 26 then 65 + v
      else if v < 52 then 97 + (v - 26)
      else if v < 62 then 48 + (v - 52)
      else if v = 62 then 43 else 47)"

fun b64_encode :: "nat list \<Rightarrow> code_units" where
  "b64_encode [] = []"
| "b64_encode [a] = [b64_symbol (a div 4), b64_symbol ((a mod 4) * 16), 61, 61]"
| "b64_encode [a, b] =
     [b64_symbol (a div 4), b64_symbol ((a mod 4) * 16 + b div 16),
      b64_symbol ((b mod 16) * 4), 61]"
| "b64_encode (a # b # c # rest) =
     [b64_symbol (a div 4), b64_symbol ((a mod 4) * 16 + b div 16),
      b64_symbol ((b mod 16) * 4 + c div 64), b64_symbol (c mod 64)] @ b64_encode rest"

definition btoa :: "code_units \<Rightarrow> code_units option" where
  "btoa binary = (if list_all (\<lambda>c. c \<le> 255) binary then Some (b64_encode binary) else None)"

text \<open>
  \<open>encodeBase64\<close>: the \<open>forEach\<close> appends one character per byte to \<open>binary\<close>, which
  goes to \<open>btoa\<close>.
\<close>

definition encodeBase64 :: "code_units \<Rightarrow> code_units option" where
  "encodeBase64 payload =
     (let bytes = TextEncoder_encode payload;
          binary = fold (\<lambda>v acc. acc @ [String_fromCharCode v]) bytes []
      in btoa binary)"

definition is_ascii_whitespace :: "nat \<Rightarrow> bool" where
  "is_ascii_whitespace c = (c = 9 \<or> c = 10 \<or> c = 12 \<or> c = 13 \<or> c = 32)"

definition b64_value :: "nat \<Rightarrow> nat option" where
  "b64_value c =
     (if 65 \<le> c \<and> c \<le> 90 then Some (c - 65)
      else if 97 \<le> c \<and> c \<le> 122 then Some (c - 97 + 26)
      else if 48 \<le> c \<and> c \<le> 57 then Some (c - 48 + 52)
      else if c = 43 then Some 62
      else if c = 47 then Some 63
      else None)"

definition strip_padding :: "code_units \<Rightarrow> code_units" where
  "strip_padding d =
     (if length d mod 4 = 0 then
        (case rev d of
           a # b # r \<Rightarrow> if a = 61 \<and> b = 61 then rev r else if a = 61 then rev (b # r) else d
         | _ \<Rightarrow> d)
      else d)"

fun b64_decode_values :: "nat list \<Rightarrow> nat list" where
  "b64_decode_values (a # b # c # d # rest) =
     [a * 4 + b div 16, (b mod 16) * 16 + c div 4, (c mod 4) * 64 + d] @ b64_decode_values rest"
| "b64_decode_values [a, b, c] = [a * 4 + b div 16, (b mod 16) * 16 + c div 4]"
| "b64_decode_values [a, b] = [a * 4 + b div 16]"
| "b64_decode_values _ = []"

definition atob :: "code_units \<Rightarrow> code_units option" where
  "atob payload =
     (let d = strip_padding (filter (\<lambda>c. \<not> is_ascii_whitespace c) payload)
      in if length d mod 4 = 1 then None
         else map_option b64_decode_values (those (map b64_value d)))"

text \<open>
  The UTF-8 decoder of the Encoding Standard: \<open>utf8_handler\<close> is its handler for one
  byte, with the decoder's five variables in a record. \<open>Decode_error_restore\<close> is the
  error that puts the byte back to be read again; it arises only inside a sequence,
  which is why \<open>utf8_decode\<close> terminates. In replacement mode every error emits U+FFFD.
\<close>

record utf8_decoder =
  code_point :: nat
  bytes_seen :: nat
  bytes_needed :: nat
  lower_boundary :: nat
  upper_boundary :: nat

definition utf8_start :: utf8_decoder where
  "utf8_start = \<lparr>code_point = 0, bytes_seen = 0, bytes_needed = 0,
                  lower_boundary = 0x80, upper_boundary = 0xBF\<rparr>"

datatype handler_result =
  Continue utf8_decoder | Code_point nat | Decode_error | Decode_error_restore

definition utf8_handler :: "utf8_decoder \<Rightarrow> nat \<Rightarrow> handler_result" where
  "utf8_handler d b =
     (if bytes_needed d = 0 then
        (if b \<le> 0x7F then Code_point b
         else if 0xC2 \<le> b \<and> b \<le> 0xDF then
           Continue (d\<lparr>bytes_needed := 1, code_point := b mod 32\<rparr>)
         else if 0xE0 \<le> b \<and> b \<le> 0xEF then
           Continue (d\<lparr>lower_boundary := (if b = 0xE0 then 0xA0 else lower_boundary d),
                        upper_boundary := (if b = 0xED then 0x9F else upper_boundary d),
                        bytes_needed := 2, code_point := b mod 16\<rparr>)
         else if 0xF0 \<le> b \<and> b \<le> 0xF4 then
           Continue (d\<lparr>lower_boundary := (if b = 0xF0 then 0x90 else lower_boundary d),
                        upper_boundary := (if b = 0xF4 then 0x8F else upper_boundary d),
                        bytes_needed := 3, code_point := b mod 8\<rparr>)
         else Decode_error)
      else if b < lower_boundary d \<or> upper_boundary d < b then Decode_error_restore
      else
        (let d1 = d\<lparr>lower_boundary := 0x80, upper_boundary := 0xBF,
                     code_point := code_point d * 64 + b mod 64,
                     bytes_seen := bytes_seen d + 1\<rparr>
         in if bytes_seen d1 \<noteq> bytes_needed d1 then Continue d1
            else Code_point (code_point d1)))"

lemma restore_only_inside:
  "utf8_handler d b = Decode_error_restore \<Longrightarrow> bytes_needed d \<noteq> 0"
  by (auto simp: utf8_handler_def split: if_splits)

function utf8_decode :: "utf8_decoder \<Rightarrow> nat list \<Rightarrow> nat list" where
  "utf8_decode d [] = (if bytes_needed d \<noteq> 0 then [0xFFFD] else [])"
| "utf8_decode d (b # bs) =
     (case utf8_handler d b of
        Continue d1 \<Rightarrow> utf8_decode d1 bs
      | Code_point cp \<Rightarrow> cp # utf8_decode utf8_start bs
      | Decode_error \<Rightarrow> 0xFFFD # utf8_decode utf8_start bs
      | Decode_error_restore \<Rightarrow> 0xFFFD # utf8_decode utf8_start (b # bs))"
  by pat_completeness auto
termination
  by (relation "measure (\<lambda>(d, bs). 2 * length bs + (if bytes_needed d = 0 then 0 else 1))")
     (auto simp: utf8_start_def dest: restore_only_inside)

definition utf16_units :: "nat \<Rightarrow> code_units" where
  "utf16_units cp =
     (if cp < 0x10000 then [cp]
      else [0xD800 + (cp - 0x10000) div 0x400, 0xDC00 + (cp - 0x10000) mod 0x400])"

definition drop_bom :: "nat list \<Rightarrow> nat list" where
  "drop_bom cps = (case cps of [] \<Rightarrow> [] | c # rest \<Rightarrow> if c = 0xFEFF then rest else cps)"

definition TextDecoder_decode :: "nat list \<Rightarrow> code_units" where
  "TextDecoder_decode bytes =
     concat (map utf16_units (drop_bom (utf8_decode utf8_start bytes)))"

text \<open>
  \<open>Uint8Array.from(binary, (char) => char.charCodeAt(0))\<close> on the result of \<open>atob\<close>,
  whose characters are single code units; an element of a \<open>Uint8Array\<close> is stored
  modulo 256.
\<close>

definition Uint8Array_from :: "code_units \<Rightarrow> nat list" where
  "Uint8Array_from binary = map (\<lambda>char. char mod 256) binary"

definition decodeBase64 :: "code_units \<Rightarrow> code_units option" where
  "decodeBase64 payload =
     (case atob payload of
        None \<Rightarrow> None
      | Some binary \<Rightarrow> Some (TextDecoder_decode (Uint8Array_from binary)))"

text \<open>A string without unpaired surrogates, that is, well-formed UTF-16.\<close>

fun well_formed_utf16 :: "code_units \<Rightarrow> bool" where
  "well_formed_utf16 [] = True"
| "well_formed_utf16 [c] = (\<not> is_lead_surrogate c \<and> \<not> is_trail_surrogate c)"
| "well_formed_utf16 (c # d # ds) =
     (if is_lead_surrogate c then is_trail_surrogate d \<and> well_formed_utf16 ds
      else \<not> is_trail_surrogate c \<and> well_formed_utf16 (d # ds))"

text \<open>
  Words for the statements about the codec: the six-bit groups of a byte sequence and
  the padding that follows them in base64; a Unicode scalar value (a code point that
  is not a surrogate); a string that starts with U+FEFF.
\<close>

fun b64_groups :: "nat list \<Rightarrow> nat list" where
  "b64_groups [] = []"
| "b64_groups [a] = [a div 4, (a mod 4) * 16]"
| "b64_groups [a, b] = [a div 4, (a mod 4) * 16 + b div 16, (b mod 16) * 4]"
| "b64_groups (a # b # c # rest) =
     [a div 4, (a mod 4) * 16 + b div 16, (b mod 16) * 4 + c div 64, c mod 64] @ b64_groups rest"

definition b64_padding :: "nat list \<Rightarrow> nat list" where
  "b64_padding bs = (if length bs mod 3 = 1 then [61, 61] else if length bs mod 3 = 2 then [61] else [])"

definition scalar_value :: "nat \<Rightarrow> bool" where
  "scalar_value cp = (cp < 0x110000 \<and> \<not> (0xD800 \<le> cp \<and> cp \<le> 0xDFFF))"

definition starts_with_bom :: "code_units \<Rightarrow> bool" where
  "starts_with_bom s = (case s of [] \<Rightarrow> False | c # rest \<Rightarrow> c = 0xFEFF)"

section \<open>The component: loading, committing, publishing\<close>

text \<open>
  The React component keeps its state in hooks; the model keeps the hooks that the
  functions below read or write in one record, and each function returns the state
  after the call. \<open>requests\<close> is not a hook: it logs the network requests in the
  order they are sent. The selection (\<open>selectedTerritoryId\<close>, \<open>selectedBlockId\<close>) is
  passed to the callbacks as arguments, as the closures capture it; the part of
  \<open>loadRemoteState\<close> that picks a first selection after a successful load writes
  selection hooks only and is not modelled.

  The texts shown to the user are Portuguese sentences; \<open>Message\<close> has one constructor
  per sentence of the source, with the number or label it interpolates, and
  \<open>Platform_message\<close> for the text of an exception raised by the browser or by the YAML
  library. A thrown value is the \<open>message\<close> its handler reads, if it has one.
\<close>

datatype NotificationType = Success | Error | Info

datatype ActionLabel =
  Atualizacao_de_status_da_casa
| Atualizacao_de_dados_da_casa
| Sequenciamento_da_quadra
| CRUD_de_quadra

datatype Message =
  Dados_carregados_do_GitHub
| Estado_sincronizado_apos_commit
| Dados_sincronizados
| Falha_ao_buscar_dados nat
| Erro_ao_buscar_dados
| Configure_o_PAT_para_enviar_alteracoes
| Salvando_alteracoes ActionLabel
| Erro_ao_obter_SHA nat
| Erro_ao_confirmar_commit nat
| Commit_aplicado_com_sucesso
| Falha_ao_salvar_alteracoes
| Platform_message string

record Notification =
  ntype :: NotificationType
  message :: Message

type_synonym thrown = "Message option"

datatype 'a settled = Rejected thrown | Fulfilled 'a

text \<open>
  What the network answers: \<open>fetch\<close> rejects (no connection) or fulfils with a
  response, whose \<open>ok\<close> flag says that the status is in 200..299 and whose \<open>json()\<close>
  rejects or gives the payload of the content endpoint.
\<close>

record Payload =
  content :: code_units
  sha :: "string option"

record Response =
  http_status :: nat
  json :: "Payload settled"

definition response_ok :: "Response \<Rightarrow> bool" where
  "response_ok r = (200 \<le> http_status r \<and> http_status r \<le> 299)"

text \<open>
  The body of the write request, \<open>{ message: COMMIT_MESSAGE, content, sha }\<close>, without
  its constant message. A \<open>GET\<close> carries the bearer token when there is one, a \<open>PUT\<close>
  always.
\<close>

record CommitBody =
  body_content :: code_units
  body_sha :: "string option"

datatype request = GET "string option" | PUT string CommitBody

record Component =
  isLoading :: bool
  isSaving :: bool
  notification :: "Notification option"
  appState :: "AppData option"
  remoteSha :: string
  showPatModal :: bool
  patValue :: string
  requests :: "request list"

text \<open>
  The YAML library is not part of the repository: \<open>yaml.load\<close> and \<open>yaml.dump\<close> are
  parameters. \<open>load\<close> throws on malformed text; its result is read as an \<open>AppData\<close>
  without any check (\<open>as AppData\<close>). The result is a document, or nothing: the library
  returns \<open>undefined\<close> for an empty text, and \<open>undefined\<close> in \<open>appState\<close> is \<open>None\<close>
  like null. Other values that are no \<open>AppData\<close> are outside the typed model.
\<close>

record js_yaml =
  load :: "code_units \<Rightarrow> AppData option settled"
  dump :: "AppData \<Rightarrow> code_units settled"

datatype outcome = Completed Component | Threw thrown Component

definition surfaceNotification :: "NotificationType \<Rightarrow> Message \<Rightarrow> Component \<Rightarrow> Component" where
  "surfaceNotification t m st = st\<lparr>notification := Some \<lparr>ntype = t, message = m\<rparr>\<rparr>"

definition error_message :: "thrown \<Rightarrow> Message \<Rightarrow> Message" where
  "error_message e fallback = (case e of Some m \<Rightarrow> m | None \<Rightarrow> fallback)"

text \<open>The exception of \<open>atob\<close> and \<open>btoa\<close>; its text is the browser's.\<close>

definition InvalidCharacterError :: thrown where
  "InvalidCharacterError = Some (Platform_message ''InvalidCharacterError'')"

text \<open>
  An id is \<open>string | null\<close>, and \<open>!id\<close> holds for null and for the empty string.
  \<open>TypeError\<close> is what reading a property of \<open>undefined\<close> throws; its text is the
  browser's.
\<close>

definition falsy_id :: "string option \<Rightarrow> bool" where
  "falsy_id x = (x = None \<or> x = Some '''')"

definition TypeError :: thrown where
  "TypeError = Some (Platform_message ''TypeError'')"

datatype LoadReason = Initial | Manual | Polling | Focus | Post_commit | Retry

definition loaded_message :: "LoadReason \<Rightarrow> Message" where
  "loaded_message reason =
     (if reason = Initial then Dados_carregados_do_GitHub
      else if reason = Post_commit then Estado_sincronizado_apos_commit
      else Dados_sincronizados)"

text \<open>
  \<open>load_try\<close> is the \<open>try\<close> block of \<open>loadRemoteState\<close>, after the request is sent.
  Once the text is parsed, the result is published, the tag stored and a success
  notification written. Then, if no territory is selected, the first territory of
  \<open>parsed.territories\<close> is looked up: on a document that only sets selection hooks
  (not modelled); on \<open>undefined\<close> the read of \<open>parsed.territories\<close> throws.
\<close>

definition load_try ::
  "js_yaml \<Rightarrow> string option \<Rightarrow> LoadReason \<Rightarrow> Response settled \<Rightarrow> Component \<Rightarrow> outcome" where
  "load_try yaml selectedTerritoryId reason fetched st =
     (case fetched of
        Rejected e \<Rightarrow> Threw e st
      | Fulfilled response \<Rightarrow>
          if \<not> response_ok response
          then Threw (Some (Falha_ao_buscar_dados (http_status response))) st
          else
            (case json response of
               Rejected e \<Rightarrow> Threw e st
             | Fulfilled payload \<Rightarrow>
                 (case decodeBase64 (content payload) of
                    None \<Rightarrow> Threw InvalidCharacterError st
                  | Some decoded \<Rightarrow>
                      (case load yaml decoded of
                         Rejected e \<Rightarrow> Threw e st
                       | Fulfilled parsed \<Rightarrow>
                           (let st1 = surfaceNotification Success (loaded_message reason)
                                        (st\<lparr>appState := parsed,
                                            remoteSha := (case sha payload of
                                                            Some tag \<Rightarrow> tag
                                                          | None \<Rightarrow> '''')\<rparr>)
                            in if falsy_id selectedTerritoryId \<and> parsed = None
                               then Threw TypeError st1
                               else Completed st1)))))"

definition loadRemoteState ::
  "js_yaml \<Rightarrow> string option \<Rightarrow> LoadReason \<Rightarrow> Response settled \<Rightarrow> Component \<Rightarrow> Component" where
  "loadRemoteState yaml selectedTerritoryId reason fetched st =
     (let st1 = st\<lparr>isLoading := True,
                    requests := requests st @
                      [GET (if patValue st = '''' then None else Some (patValue st))]\<rparr>;
          st2 = (case load_try yaml selectedTerritoryId reason fetched st1 of
                   Completed st' \<Rightarrow> st'
                 | Threw e st' \<Rightarrow>
                     surfaceNotification Error (error_message e Erro_ao_buscar_dados) st')
      in st2\<lparr>isLoading := False\<rparr>)"

text \<open>
  The three answers one run of \<open>commitToGitHub\<close> can wait for, in the order it asks:
  the read of the version tag, the write, and the reload after a successful write.
\<close>

record commit_env =
  sha_response :: "Response settled"
  put_response :: "Response settled"
  reload_response :: "Response settled"

definition commit_try ::
  "js_yaml \<Rightarrow> string option \<Rightarrow> AppData \<Rightarrow> commit_env \<Rightarrow> Component \<Rightarrow> outcome" where
  "commit_try yaml selectedTerritoryId nextState env st =
     (case dump yaml nextState of
        Rejected e \<Rightarrow> Threw e st
      | Fulfilled yamlString \<Rightarrow>
          (let st1 = st\<lparr>requests := requests st @ [GET (Some (patValue st))]\<rparr>
           in case sha_response env of
                Rejected e \<Rightarrow> Threw e st1
              | Fulfilled shaResponse \<Rightarrow>
                  if \<not> response_ok shaResponse
                  then Threw (Some (Erro_ao_obter_SHA (http_status shaResponse))) st1
                  else
                    (case json shaResponse of
                       Rejected e \<Rightarrow> Threw e st1
                     | Fulfilled shaPayload \<Rightarrow>
                         (case encodeBase64 yamlString of
                            None \<Rightarrow> Threw InvalidCharacterError st1
                          | Some encoded \<Rightarrow>
                              (let commitBody = \<lparr>body_content = encoded,
                                                  body_sha = sha shaPayload\<rparr>;
                                   st2 = st1\<lparr>requests := requests st1 @
                                               [PUT (patValue st) commitBody]\<rparr>
                               in case put_response env of
                                    Rejected e \<Rightarrow> Threw e st2
                                  | Fulfilled putResponse \<Rightarrow>
                                      if \<not> response_ok putResponse
                                      then Threw (Some (Erro_ao_confirmar_commit
                                                          (http_status putResponse))) st2
                                      else Completed
                                        (loadRemoteState yaml selectedTerritoryId Post_commit (reload_response env)
                                          (surfaceNotification Success
                                            Commit_aplicado_com_sucesso st2)))))))"

definition commitToGitHub ::
  "js_yaml \<Rightarrow> string option \<Rightarrow> AppData \<Rightarrow> ActionLabel \<Rightarrow> commit_env \<Rightarrow> Component \<Rightarrow> Component" where
  "commitToGitHub yaml selectedTerritoryId nextState actionLabel env st =
     (if patValue st = ''''
      then (surfaceNotification Error Configure_o_PAT_para_enviar_alteracoes st)
             \<lparr>showPatModal := True\<rparr>
      else
        (let st1 = surfaceNotification Info (Salvando_alteracoes actionLabel)
                     (st\<lparr>isSaving := True\<rparr>);
             st2 = (case commit_try yaml selectedTerritoryId nextState env st1 of
                      Completed st' \<Rightarrow> st'
                    | Threw e st' \<Rightarrow>
                        surfaceNotification Error
                          (error_message e Falha_ao_salvar_alteracoes) st')
         in st2\<lparr>isSaving := False\<rparr>))"

text \<open>
  \<open>cloneState\<close> is \<open>JSON.parse(JSON.stringify(data))\<close>: a deep copy, so that the mutator
  cannot reach the published document. On values, a copy is the value.

  \<open>applyStateMutation\<close>: nothing happens without a document; a mutator that throws
  leaves the state as it was (the result is \<open>None\<close>); otherwise the draft is published
  with \<open>setAppState\<close> and then committed.
\<close>

definition cloneState :: "'a \<Rightarrow> 'a" where
  "cloneState data = data"

definition applyStateMutation ::
  "js_yaml \<Rightarrow> string option \<Rightarrow> (AppData \<Rightarrow> AppData option) \<Rightarrow> ActionLabel \<Rightarrow> commit_env \<Rightarrow> Component
   \<Rightarrow> Component option" where
  "applyStateMutation yaml selectedTerritoryId mutator label env st =
     (case appState st of
        None \<Rightarrow> Some st
      | Some current \<Rightarrow>
          (case mutator (cloneState current) of
             None \<Rightarrow> None
           | Some draft \<Rightarrow>
               Some (commitToGitHub yaml selectedTerritoryId draft label env (st\<lparr>appState := Some draft\<rparr>))))"

text \<open>
  The callbacks. \<open>selectedTerritory\<close> and \<open>selectedBlock\<close> are the memoised lookups of
  the selection in the current document.
\<close>

definition selectedTerritory :: "Component \<Rightarrow> string option \<Rightarrow> TerritoryRecord option" where
  "selectedTerritory st selectedTerritoryId =
     (case (appState st, selectedTerritoryId) of
        (Some current, Some territoryId) \<Rightarrow>
          if territoryId = '''' then None else map_of (territories current) territoryId
      | _ \<Rightarrow> None)"

definition selectedBlock ::
  "Component \<Rightarrow> string option \<Rightarrow> string option \<Rightarrow> BlockRecord option" where
  "selectedBlock st selectedTerritoryId selectedBlockId =
     (case (selectedTerritory st selectedTerritoryId, selectedBlockId) of
        (Some territory, Some blockId) \<Rightarrow>
          if blockId = '''' then None else map_of (blocks territory) blockId
      | _ \<Rightarrow> None)"

definition cycleHouseStatus ::
  "js_yaml \<Rightarrow> string option \<Rightarrow> string option \<Rightarrow> string \<Rightarrow> string \<Rightarrow> commit_env \<Rightarrow> Component
   \<Rightarrow> Component option" where
  "cycleHouseStatus yaml selectedTerritoryId selectedBlockId houseId now env st =
     (if selectedTerritory st selectedTerritoryId = None
         \<or> selectedBlock st selectedTerritoryId selectedBlockId = None
         \<or> falsy_id selectedTerritoryId \<or> falsy_id selectedBlockId
      then Some st
      else applyStateMutation yaml selectedTerritoryId
             (cycleHouseStatus_mutator (the selectedTerritoryId) (the selectedBlockId) houseId now)
             Atualizacao_de_status_da_casa env st)"

definition updateHouseData ::
  "js_yaml \<Rightarrow> string option \<Rightarrow> string option \<Rightarrow> string \<Rightarrow> HouseUpdates \<Rightarrow> commit_env
   \<Rightarrow> Component \<Rightarrow> Component option" where
  "updateHouseData yaml selectedTerritoryId selectedBlockId houseId updates env st =
     (if falsy_id selectedTerritoryId \<or> falsy_id selectedBlockId
      then Some st
      else applyStateMutation yaml selectedTerritoryId
             (updateHouseData_mutator (the selectedTerritoryId) (the selectedBlockId)
                houseId updates)
             Atualizacao_de_dados_da_casa env st)"

definition applyChalkSequencing ::
  "js_yaml \<Rightarrow> string option \<Rightarrow> string \<Rightarrow> int \<Rightarrow> commit_env \<Rightarrow> Component \<Rightarrow> Component option" where
  "applyChalkSequencing yaml selectedTerritoryId blockId mx env st =
     (if falsy_id selectedTerritoryId \<or> appState st = None
      then Some st
      else applyStateMutation yaml selectedTerritoryId
             (applyChalkSequencing_mutator (the selectedTerritoryId) blockId mx)
             Sequenciamento_da_quadra env st)"

definition upsertBlock ::
  "js_yaml \<Rightarrow> string option \<Rightarrow> UpsertBlockPayload \<Rightarrow> commit_env \<Rightarrow> Component
   \<Rightarrow> Component option" where
  "upsertBlock yaml selectedTerritoryId payload env st =
     applyStateMutation yaml selectedTerritoryId (upsertBlock_mutator payload) CRUD_de_quadra env st"

text \<open>The mutator of \<open>updateUserRoles\<close>: the role mapping is replaced wholesale.\<close>

definition updateUserRoles_mutator :: "(string \<times> UserRole) list \<Rightarrow> AppData \<Rightarrow> AppData option" where
  "updateUserRoles_mutator roles draft =
     Some (draft\<lparr>appConfig := (appConfig draft)\<lparr>userRoles := roles\<rparr>\<rparr>)"

text \<open>
  Words for the statements about commits. A request fails when \<open>fetch\<close> rejects
  (network error) or the response is not \<open>ok\<close> (a status outside 200..299, which is
  how an authentication rejection arrives). \<open>fetched_tag\<close> is the version tag a commit
  reads from its own first response, when that read succeeds. \<open>put_tags\<close> lists the
  tags of the write requests of a log, in order.
\<close>

definition request_fails :: "Response settled \<Rightarrow> bool" where
  "request_fails fetched =
     (case fetched of Rejected e \<Rightarrow> True | Fulfilled response \<Rightarrow> \<not> response_ok response)"

definition fetched_tag :: "commit_env \<Rightarrow> string option option" where
  "fetched_tag env =
     (case sha_response env of
        Rejected e \<Rightarrow> None
      | Fulfilled response \<Rightarrow>
          if response_ok response
          then (case json response of Rejected e \<Rightarrow> None | Fulfilled payload \<Rightarrow> Some (sha payload))
          else None)"

fun put_tags :: "request list \<Rightarrow> string option list" where
  "put_tags [] = []"
| "put_tags (GET token # rs) = put_tags rs"
| "put_tags (PUT token body # rs) = body_sha body # put_tags rs"


section \<open>Sample data\<close>

text \<open>A block and a house on which the theorems below are run.\<close>

definition sample_house :: HouseRecord where
  "sample_house =
     \<lparr>status = 4, chalkNumber = ''1'', officialNumber = ''12A'', notes = ''dog'',
      lastVisit = Some ''2024-05-01T10:00:00.000Z''\<rparr>"

definition sample_block :: BlockRecord where
  "sample_block =
     \<lparr>summary = \<lparr>total = 9, verde = 9, amarelo = 0, laranja = 0, vermelho = 0\<rparr>,
      imageUrl = ''map.png'',
      houses =
        [(''1'', sample_house),
         (''2'', \<lparr>status = 2, chalkNumber = ''7'', officialNumber = '''', notes = '''',
                  lastVisit = None\<rparr>),
         (''5'', \<lparr>status = 1, chalkNumber = ''5'', officialNumber = '''', notes = '''',
                  lastVisit = None\<rparr>)]\<rparr>"

definition sample_document :: AppData where
  "sample_document =
     \<lparr>appConfig = \<lparr>superAdminEmail = ''root@example.org'',
                    userRoles = [(''ann@example.org'', Capitao)]\<rparr>,
      territories =
        [(''01'', \<lparr>territory_name = ''Centro'', territory_status = ''Em Uso'',
                   lastUse = ''2024-05-01T10:00:00.000Z'',
                   blocks = [(''1'', sample_block)]\<rparr>)]\<rparr>"



definition ascii :: "string \<Rightarrow> code_units" where
  "ascii s = map of_char s"

definition sample_yaml_text :: code_units where
  "sample_yaml_text = ascii ''a: 1''"

definition sample_yaml :: js_yaml where
  "sample_yaml =
     \<lparr>load = (\<lambda>text. if text = sample_yaml_text then Fulfilled (Some sample_document)
                      else if text = [] then Fulfilled None
                      else Rejected (Some (Platform_message ''bad indentation''))),
      dump = (\<lambda>doc. Fulfilled sample_yaml_text)\<rparr>"

definition sample_component :: Component where
  "sample_component =
     \<lparr>isLoading = False, isSaving = False, notification = None,
      appState = Some sample_document, remoteSha = ''tag0'', showPatModal = False,
      patValue = ''token'', requests = []\<rparr>"

definition response_with :: "nat \<Rightarrow> code_units \<Rightarrow> string \<Rightarrow> Response settled" where
  "response_with code text tag =
     Fulfilled \<lparr>http_status = code, json = Fulfilled \<lparr>content = text, sha = Some tag\<rparr>\<rparr>"

text \<open>
  Two environments: one answers the read of the version tag with 401; the other
  answers every request with 200 and hands out the given tag.
\<close>

definition rejecting_env :: commit_env where
  "rejecting_env =
     \<lparr>sha_response = Fulfilled \<lparr>http_status = 401, json = Rejected None\<rparr>,
      put_response = response_with 200 [] ''unused'',
      reload_response = response_with 200 [] ''unused''\<rparr>"

definition accepting_env :: "string \<Rightarrow> commit_env" where
  "accepting_env tag =
     \<lparr>sha_response = response_with 200 [] tag,
      put_response = response_with 200 [] tag,
      reload_response = Rejected (Some (Platform_message ''Failed to fetch''))\<rparr>"

section \<open>Properties of access control\<close>

lemma spec_rank_values:
  "spec_rank Comum = 0" "spec_rank Capitao = 1" "spec_rank Admin = 2" "spec_rank Super_Admin = 3"
  by (simp_all add: spec_rank_def spec_role_order_def)

lemma roleHierarchy_spec_rank: "roleHierarchy r = int (spec_rank r)"
  by (cases r) (simp_all add: spec_rank_values)

text \<open>
  C3. For every pair of roles, \<open>hasCapability r required\<close> holds exactly when the rank
  of \<open>r\<close> in the chain Comum < Capitao < Admin < Super Admin is at least the rank of
  \<open>required\<close>; the chain is strictly increasing, and \<open>hasCapability\<close> is monotonic in
  its first argument.
\<close>

theorem hasCapability_rank:
  "(hasCapability r required \<longleftrightarrow> spec_rank r \<ge> spec_rank required)
   \<and> spec_rank Comum < spec_rank Capitao
   \<and> spec_rank Capitao < spec_rank Admin
   \<and> spec_rank Admin < spec_rank Super_Admin
   \<and> (spec_rank r1 \<le> spec_rank r2 \<longrightarrow> hasCapability r1 required \<longrightarrow> hasCapability r2 required)"
  by (simp add: hasCapability_def roleHierarchy_spec_rank spec_rank_values)

theorem hasCapability_rank_witness:
  "spec_rank Capitao \<le> spec_rank Admin \<and> hasCapability Capitao Capitao
   \<and> hasCapability Admin Capitao \<and> \<not> hasCapability Comum Capitao"
  using hasCapability_rank [of Capitao Capitao Capitao Admin]
    hasCapability_rank [of Comum Capitao Capitao Capitao]
  by (simp add: spec_rank_values)

section \<open>Properties of the aggregate recalculation\<close>

lemma count_house_fields:
  "total (count_house h s) = total s + 1"
  "verde (count_house h s) = verde s + (if status h = 1 then 1 else 0)"
  "amarelo (count_house h s) = amarelo s + (if status h = 2 then 1 else 0)"
  "laranja (count_house h s) = laranja s + (if status h = 3 then 1 else 0)"
  "vermelho (count_house h s) = vermelho s + (if status h = 4 then 1 else 0)"
  by (simp_all add: count_house_def Let_def)

lemma fold_count_house:
  "total (fold count_house hs s) = total s + int (length hs)"
  "verde (fold count_house hs s) = verde s + int (length (filter (\<lambda>h. status h = 1) hs))"
  "amarelo (fold count_house hs s) = amarelo s + int (length (filter (\<lambda>h. status h = 2) hs))"
  "laranja (fold count_house hs s) = laranja s + int (length (filter (\<lambda>h. status h = 3) hs))"
  "vermelho (fold count_house hs s) = vermelho s + int (length (filter (\<lambda>h. status h = 4) hs))"
  by (induction hs arbitrary: s; simp add: count_house_fields)+

lemma recalc_fields:
  "houses (recalcBlockSummary b) = houses b"
  "imageUrl (recalcBlockSummary b) = imageUrl b"
  "total (summary (recalcBlockSummary b)) = house_count b"
  "verde (summary (recalcBlockSummary b)) = houses_with_status 1 b"
  "amarelo (summary (recalcBlockSummary b)) = houses_with_status 2 b"
  "laranja (summary (recalcBlockSummary b)) = houses_with_status 3 b"
  "vermelho (summary (recalcBlockSummary b)) = houses_with_status 4 b"
  by (simp_all add: recalcBlockSummary_def fold_count_house zero_summary_def
      house_count_def houses_with_status_def Object_values_def Object_keys_def)



lemma status_partition:
  "\<forall>h \<in> set hs. status h \<in> {1, 2, 3, 4} \<Longrightarrow>
   length (filter (\<lambda>h. status h = 1) hs) + length (filter (\<lambda>h. status h = 2) hs)
   + length (filter (\<lambda>h. status h = 3) hs) + length (filter (\<lambda>h. status h = 4) hs) = length hs"
  by (induction hs) auto

lemma recalc_idem: "recalcBlockSummary (recalcBlockSummary b) = recalcBlockSummary b"
  by (simp add: recalcBlockSummary_def)

text \<open>
  The summary does not depend on the order in which the houses are enumerated: two
  house objects with the same keys and values give the same summary.
\<close>

lemma count_house_explicit:
  "count_house h s =
     \<lparr>total = total s + 1,
      verde = verde s + (if status h = 1 then 1 else 0),
      amarelo = amarelo s + (if status h = 2 then 1 else 0),
      laranja = laranja s + (if status h = 3 then 1 else 0),
      vermelho = vermelho s + (if status h = 4 then 1 else 0)\<rparr>"
  by (simp add: count_house_def Let_def)

lemma count_house_commute:
  "count_house h1 (count_house h2 s) = count_house h2 (count_house h1 s)"
  by (simp add: count_house_explicit)

lemma summary_independent_of_key_order:
  assumes "distinct (Object_keys (houses b))" and "distinct (Object_keys (houses b'))"
    and "map_of (houses b) = map_of (houses b')"
  shows "summary (recalcBlockSummary b) = summary (recalcBlockSummary b')"
proof -
  have d: "distinct (map fst (houses b))" "distinct (map fst (houses b'))"
    using assms(1,2) by (simp_all add: Object_keys_def)
  then have "set (houses b) = set (houses b')"
    using assms(3) by (simp add: map_of_inject_set)
  moreover have "distinct (houses b)" "distinct (houses b')"
    using d by (simp_all add: distinct_map)
  ultimately have "mset (houses b) = mset (houses b')"
    by (simp add: set_eq_iff_mset_eq_distinct)
  then have "mset (map snd (houses b)) = mset (map snd (houses b'))"
    by (metis mset_map)
  then have "fold count_house (map snd (houses b)) zero_summary
               = fold count_house (map snd (houses b')) zero_summary"
    by (intro fold_multiset_equiv [THEN fun_cong]) (simp_all add: count_house_commute fun_eq_iff)
  then show ?thesis
    by (simp add: recalcBlockSummary_def Object_values_def)
qed


text \<open>
  C8. Recalculation is idempotent; its result is a function of the houses alone (two
  runs on blocks with the same houses give the same summary, and the houses and the
  image are returned as they were); the total is the number of houses; and when every
  house has a status in 1..4, the four counters add up to the total.
\<close>

theorem recalcBlockSummary_idempotent_and_total:
  "recalcBlockSummary (recalcBlockSummary B) = recalcBlockSummary B
   \<and> (houses B = houses B' \<longrightarrow>
        summary (recalcBlockSummary B) = summary (recalcBlockSummary B'))
   \<and> houses (recalcBlockSummary B) = houses B
   \<and> imageUrl (recalcBlockSummary B) = imageUrl B
   \<and> total (summary (recalcBlockSummary B)) = house_count B
   \<and> ((\<forall>house \<in> set (Object_values (houses B)). status house \<in> {1, 2, 3, 4}) \<longrightarrow>
        verde (summary (recalcBlockSummary B)) + amarelo (summary (recalcBlockSummary B))
        + laranja (summary (recalcBlockSummary B)) + vermelho (summary (recalcBlockSummary B))
        = total (summary (recalcBlockSummary B)))"
proof -
  have sum: "verde (summary (recalcBlockSummary B)) + amarelo (summary (recalcBlockSummary B))
        + laranja (summary (recalcBlockSummary B)) + vermelho (summary (recalcBlockSummary B))
        = total (summary (recalcBlockSummary B))"
    if "\<forall>house \<in> set (Object_values (houses B)). status house \<in> {1, 2, 3, 4}"
    using status_partition [OF that]
    by (simp add: recalc_fields houses_with_status_def house_count_def Object_keys_def
        Object_values_def)
  have same: "summary (recalcBlockSummary B) = summary (recalcBlockSummary B')"
    if "houses B = houses B'"
    using that by (simp add: recalcBlockSummary_def)
  show ?thesis
    using sum same by (simp add: recalc_idem recalc_fields)
qed

theorem recalcBlockSummary_witness:
  "list_all (\<lambda>house. status house \<in> {1, 2, 3, 4}) (Object_values (houses sample_block))
   \<and> summary (recalcBlockSummary sample_block)
       = \<lparr>total = 3, verde = 1, amarelo = 1, laranja = 0, vermelho = 1\<rparr>
   \<and> recalcBlockSummary (recalcBlockSummary sample_block) = recalcBlockSummary sample_block"
proof -
  have h: "\<forall>house \<in> set (Object_values (houses sample_block)). status house \<in> {1, 2, 3, 4}"
    by (simp add: sample_block_def sample_house_def Object_values_def)
  have s: "summary (recalcBlockSummary sample_block)
       = \<lparr>total = 3, verde = 1, amarelo = 1, laranja = 0, vermelho = 1\<rparr>"
    by (simp add: sample_block_def sample_house_def recalcBlockSummary_def Object_values_def
        count_house_def zero_summary_def)
  show ?thesis
    using h s recalcBlockSummary_idempotent_and_total [of sample_block sample_block]
    by (simp add: list_all_iff)
qed

section \<open>Properties of the status cycle\<close>


lemma nextStatus_other: "st \<notin> {1, 2, 3, 4} \<Longrightarrow> nextStatus st = 1"
  by (simp add: nextStatus_def indexOf_def statusCycle_def)

lemma indexOf_from_range:
  "indexOf_from i xs x = -1 \<or> (i \<le> indexOf_from i xs x \<and> indexOf_from i xs x < i + int (length xs))"
  by (induction xs arbitrary: i) (auto, force+)

lemma cycle_index_in_range:
  "0 \<le> (indexOf statusCycle st + 1) mod int (length statusCycle)
   \<and> nat ((indexOf statusCycle st + 1) mod int (length statusCycle)) < length statusCycle"
  by (simp add: statusCycle_def)


lemma cycleHouseStatus_block_Some:
  "map_of (houses b) hid = Some h \<Longrightarrow>
   cycleHouseStatus_block hid now b
     = Some (recalcBlockSummary (b\<lparr>houses := AList.update hid (cycle_house now h) (houses b)\<rparr>))"
  by (simp add: cycleHouseStatus_block_def)






section \<open>Properties of keys\<close>

declare digits_of.simps [simp del]

lemma digit_char_props:
  "d < 10 \<Longrightarrow> is_digit (digit_char d) \<and> digit_value (digit_char d) = d"
  by (simp add: is_digit_def digit_char_def digit_value_def)

lemma digits_of_props:
  "digits_of n \<noteq> [] \<and> list_all is_digit (digits_of n) \<and> decimal_value (digits_of n) = n"
proof (induction n rule: digits_of.induct)
  case (1 n)
  show ?case
  proof (cases "n < 10")
    case True
    then show ?thesis
      by (subst (1 2 3) digits_of.simps) (simp add: digit_char_props decimal_value_def)
  next
    case False
    with 1 have ih: "digits_of (n div 10) \<noteq> []" "list_all is_digit (digits_of (n div 10))"
      "decimal_value (digits_of (n div 10)) = n div 10" by simp_all
    have d: "n mod 10 < 10" by simp
    show ?thesis using False ih digit_char_props [OF d]
      by (subst (1 2 3) digits_of.simps) (simp add: decimal_value_def)
  qed
qed

lemma Number_key_String_int: "0 \<le> i \<Longrightarrow> Number_key (String_int i) = Some i"
  by (simp add: Number_key_def String_int_def digits_of_props)

lemma String_int_inj: "0 \<le> i \<Longrightarrow> 0 \<le> j \<Longrightarrow> String_int i = String_int j \<Longrightarrow> i = j"
  using Number_key_String_int by (metis option.inject)

lemma String_int_small:
  "String_int 1 = ''1''" "String_int 2 = ''2''" "String_int 3 = ''3''"
  by code_simp+

section \<open>Properties of resequencing\<close>

lemma map_of_sequence_step:
  "map_of (sequence_step j hs) k =
     (if k = String_int j then Some (sequenced k (map_of hs k)) else map_of hs k)"
  by (simp add: sequence_step_def Let_def map_of_map_entry update_conv' sequenced_def new_house_def
      split: option.splits)

declare for_index.simps [simp del]

lemma map_of_sequence_loop:
  "map_of (for_index i mx sequence_step hs) k =
     (if k \<in> String_int ` {i..mx} then Some (sequenced k (map_of hs k)) else map_of hs k)"
proof (induction i mx sequence_step hs rule: for_index.induct)
  case (1 index mx s)
  show ?case
  proof (cases "index \<le> mx")
    case False
    then show ?thesis by (subst for_index.simps) simp
  next
    case True
    have split: "{index..mx} = insert index {index + 1..mx}" using True by auto
    have idem: "sequenced k' (Some (sequenced k' x)) = sequenced k' x" for k' x
      by (simp add: sequenced_def new_house_def split: option.splits)
    show ?thesis
      using True 1
      by (subst for_index.simps) (auto simp: split map_of_sequence_step idem)
  qed
qed

lemma map_of_prune_step:
  "map_of (prune_step mx key hs) k = (if k = key \<and> finite_above mx key then None else map_of hs k)"
  by (simp add: prune_step_def delete_conv')

lemma map_of_prune_fold:
  "map_of (fold (prune_step mx) ks hs) k =
     (if k \<in> set ks \<and> finite_above mx k then None else map_of hs k)"
  by (induction ks arbitrary: hs) (auto simp: map_of_prune_step)

lemma map_of_prune_keys:
  "map_of (fold (prune_step mx) (Object_keys hs) hs) k =
     (if finite_above mx k then None else map_of hs k)"
  by (auto simp: map_of_prune_fold Object_keys_def map_of_eq_None_iff)

lemma houses_applyChalkSequencing:
  "map_of (houses (applyChalkSequencing_block mx block)) k =
     (if finite_above mx k then None
      else if k \<in> String_int ` {1..mx} then Some (sequenced k (map_of (houses block) k))
      else map_of (houses block) k)"
  by (simp add: applyChalkSequencing_block_def Let_def recalcBlockSummary_def
      map_of_prune_keys map_of_sequence_loop)

lemma generated_key_kept: "1 \<le> i \<Longrightarrow> i \<le> mx \<Longrightarrow> \<not> finite_above mx (String_int i)"
  by (simp add: finite_above_def Number_key_String_int)

lemma distinct_sequence_step:
  "distinct (map fst hs) \<Longrightarrow> distinct (map fst (sequence_step j hs))"
  by (simp add: sequence_step_def Let_def distinct_map_entry distinct_update split: option.splits)

lemma distinct_sequence_loop:
  "distinct (map fst hs) \<Longrightarrow> distinct (map fst (for_index i mx sequence_step hs))"
proof (induction i mx sequence_step hs rule: for_index.induct)
  case (1 index mx s)
  then show ?case
    by (subst for_index.simps) (simp add: distinct_sequence_step)
qed

lemma distinct_prune_fold:
  "distinct (map fst hs) \<Longrightarrow> distinct (map fst (fold (prune_step mx) ks hs))"
  by (induction ks arbitrary: hs) (auto simp: prune_step_def distinct_delete)

lemma applyChalkSequencing_distinct:
  "distinct (Object_keys (houses block)) \<Longrightarrow>
   distinct (Object_keys (houses (applyChalkSequencing_block mx block)))"
  by (simp add: applyChalkSequencing_block_def Let_def recalcBlockSummary_def Object_keys_def
      distinct_prune_fold distinct_sequence_loop)




text \<open>
  C10. Resequencing with maximum \<open>mx\<close> and a key \<open>String(i)\<close>, \<open>1 \<le> i \<le> mx\<close>: a house
  that was stored under the key is still there with the same status, official number,
  notes and last visit, its chalk number now the key; a key that had no house gets a
  house with status 1, empty official number and notes, and no last visit. The image
  of the block is untouched.
\<close>

theorem applyChalkSequencing_frame:
  assumes "1 \<le> i" and "i \<le> mx"
  shows "(\<forall>house. map_of (houses block) (String_int i) = Some house \<longrightarrow>
            (\<exists>house'. map_of (houses (applyChalkSequencing_block mx block)) (String_int i)
                         = Some house'
               \<and> house' = house\<lparr>chalkNumber := String_int i\<rparr>
               \<and> status house' = status house
               \<and> officialNumber house' = officialNumber house
               \<and> notes house' = notes house
               \<and> lastVisit house' = lastVisit house))
         \<and> (map_of (houses block) (String_int i) = None \<longrightarrow>
              map_of (houses (applyChalkSequencing_block mx block)) (String_int i)
                = Some \<lparr>status = 1, chalkNumber = String_int i, officialNumber = '''',
                         notes = '''', lastVisit = None\<rparr>)
         \<and> imageUrl (applyChalkSequencing_block mx block) = imageUrl block"
proof -
  have image: "imageUrl (applyChalkSequencing_block mx block) = imageUrl block"
    by (simp add: applyChalkSequencing_block_def Let_def recalc_fields)
  show ?thesis
    using assms generated_key_kept [OF assms] image
    by (simp add: houses_applyChalkSequencing sequenced_def new_house_def)
qed

theorem applyChalkSequencing_frame_witness:
  "map_of (houses (applyChalkSequencing_block 3 sample_block)) ''2''
     = Some \<lparr>status = 2, chalkNumber = ''2'', officialNumber = '''', notes = '''',
              lastVisit = None\<rparr>
   \<and> map_of (houses (applyChalkSequencing_block 3 sample_block)) ''1''
     = Some (sample_house\<lparr>chalkNumber := ''1''\<rparr>)
   \<and> map_of (houses (applyChalkSequencing_block 3 sample_block)) ''3''
     = Some \<lparr>status = 1, chalkNumber = ''3'', officialNumber = '''', notes = '''',
              lastVisit = None\<rparr>"
proof -
  have b: "map_of (houses sample_block) ''1'' = Some sample_house"
    "map_of (houses sample_block) ''2''
       = Some \<lparr>status = 2, chalkNumber = ''7'', officialNumber = '''', notes = '''',
                lastVisit = None\<rparr>"
    "map_of (houses sample_block) ''3'' = None"
    by (simp_all add: sample_block_def)
  show ?thesis
    using b applyChalkSequencing_frame [of 1 3 sample_block]
      applyChalkSequencing_frame [of 2 3 sample_block]
      applyChalkSequencing_frame [of 3 3 sample_block]
    by (simp add: String_int_small)
qed

section \<open>The summary after every house mutation\<close>









section \<open>Properties of the commit\<close>

lemma loadRemoteState_requests:
  "requests (loadRemoteState yaml selectedTerritoryId reason fetched st)
     = requests st @ [GET (if patValue st = '''' then None else Some (patValue st))]"
  by (auto simp: loadRemoteState_def Let_def load_try_def surfaceNotification_def
      split: settled.splits option.splits)

lemma loadRemoteState_patValue:
  "patValue (loadRemoteState yaml selectedTerritoryId reason fetched st) = patValue st"
  by (auto simp: loadRemoteState_def Let_def load_try_def surfaceNotification_def
      split: settled.splits option.splits)

lemma commit_try_Threw:
  "commit_try yaml selectedTerritoryId nextState env st = Threw e st' \<Longrightarrow>
   appState st' = appState st \<and> remoteSha st' = remoteSha st \<and> patValue st' = patValue st"
  by (auto simp: commit_try_def Let_def split: settled.splits if_splits option.splits)

lemma commit_try_fails:
  "request_fails (sha_response env) \<or> request_fails (put_response env) \<Longrightarrow>
   \<exists>e st'. commit_try yaml selectedTerritoryId nextState env st = Threw e st'"
  by (auto simp: commit_try_def Let_def request_fails_def
      split: settled.splits if_splits option.splits)

lemma commitToGitHub_failure:
  assumes "patValue st = '''' \<or> request_fails (sha_response env) \<or> request_fails (put_response env)"
  shows "appState (commitToGitHub yaml selectedTerritoryId nextState label env st) = appState st
         \<and> remoteSha (commitToGitHub yaml selectedTerritoryId nextState label env st) = remoteSha st
         \<and> (\<exists>m. notification (commitToGitHub yaml selectedTerritoryId nextState label env st)
                  = Some \<lparr>ntype = Error, message = m\<rparr>)"
proof (cases "patValue st = ''''")
  case True
  then show ?thesis
    by (simp add: commitToGitHub_def surfaceNotification_def)
next
  case False
  let ?st1 = "surfaceNotification Info (Salvando_alteracoes label) (st\<lparr>isSaving := True\<rparr>)"
  from False assms obtain e st' where t: "commit_try yaml selectedTerritoryId nextState env ?st1 = Threw e st'"
    using commit_try_fails by blast
  from commit_try_Threw [OF t] have "appState st' = appState st" "remoteSha st' = remoteSha st"
    by (simp_all add: surfaceNotification_def)
  with False t show ?thesis
    by (simp add: commitToGitHub_def Let_def surfaceNotification_def)
qed

text \<open>
  C5. A mutation is applied to a loaded document and its commit fails: the token is
  missing, or the read of the version tag or the write is answered by a network error
  or by a status outside 200..299 (an authentication rejection is such a status). Then
  the call ends with an error notification, and the document in memory is the draft
  published before the commit: it is not put back to the document from before the
  mutation, and the remembered version tag is not touched either.
\<close>

theorem commit_failure_keeps_optimistic_view:
  assumes "appState st = Some current" and "mutator current = Some draft"
    and "patValue st = '''' \<or> request_fails (sha_response env) \<or> request_fails (put_response env)"
  shows "\<exists>st'. applyStateMutation yaml selectedTerritoryId mutator label env st = Some st'
           \<and> appState st' = Some draft
           \<and> (draft \<noteq> current \<longrightarrow> appState st' \<noteq> Some current)
           \<and> (\<exists>m. notification st' = Some \<lparr>ntype = Error, message = m\<rparr>)
           \<and> remoteSha st' = remoteSha st"
proof -
  let ?published = "st\<lparr>appState := Some draft\<rparr>"
  have run: "applyStateMutation yaml selectedTerritoryId mutator label env st
               = Some (commitToGitHub yaml selectedTerritoryId draft label env ?published)"
    using assms(1,2) by (simp add: applyStateMutation_def cloneState_def)
  have "patValue ?published = '''' \<or> request_fails (sha_response env)
          \<or> request_fails (put_response env)"
    using assms(3) by simp
  from commitToGitHub_failure [OF this, of yaml selectedTerritoryId draft label] run
  show ?thesis by simp
qed


theorem commit_failure_keeps_optimistic_view_witness:
  "\<exists>st'. applyStateMutation sample_yaml None (updateUserRoles_mutator []) Sequenciamento_da_quadra
           rejecting_env sample_component = Some st'
      \<and> appState st'
          = Some (sample_document\<lparr>appConfig := (appConfig sample_document)\<lparr>userRoles := []\<rparr>\<rparr>)
      \<and> appState st' \<noteq> Some sample_document
      \<and> (\<exists>m. notification st' = Some \<lparr>ntype = Error, message = m\<rparr>)"
proof -
  have a: "appState sample_component = Some sample_document"
    by (simp add: sample_component_def)
  have m: "updateUserRoles_mutator [] sample_document
             = Some (sample_document\<lparr>appConfig := (appConfig sample_document)\<lparr>userRoles := []\<rparr>\<rparr>)"
    by (simp add: updateUserRoles_mutator_def)
  have f: "patValue sample_component = '''' \<or> request_fails (sha_response rejecting_env)
      \<or> request_fails (put_response rejecting_env)"
    by (simp add: request_fails_def rejecting_env_def response_ok_def)
  have d: "sample_document\<lparr>appConfig := (appConfig sample_document)\<lparr>userRoles := []\<rparr>\<rparr>
             \<noteq> sample_document"
    by (simp add: sample_document_def)
  from commit_failure_keeps_optimistic_view
    [where mutator = "updateUserRoles_mutator []" and yaml = sample_yaml
       and selectedTerritoryId = None and label = Sequenciamento_da_quadra, OF a m f] d
  show ?thesis by auto
qed

section \<open>The version tag of a commit\<close>

lemma put_tags_append: "put_tags (xs @ ys) = put_tags xs @ put_tags ys"
  by (induction xs rule: put_tags.induct) simp_all

lemma commitToGitHub_patValue:
  "patValue (commitToGitHub yaml selectedTerritoryId nextState label env st) = patValue st"
  by (auto simp: commitToGitHub_def commit_try_def Let_def surfaceNotification_def
      loadRemoteState_patValue split: settled.splits option.splits)

lemma commit_try_requests:
  "\<exists>sent. requests (case commit_try yaml selectedTerritoryId nextState env st of
                       Completed st' \<Rightarrow> st' | Threw e st' \<Rightarrow> f e st')
             = requests st @ sent
         \<and> (put_tags sent = [] \<or> (\<exists>tag. fetched_tag env = Some tag \<and> put_tags sent = [tag]))"
  if "\<And>e st'. requests (f e st') = requests st'"
  using that
  by (auto simp: commit_try_def Let_def fetched_tag_def loadRemoteState_requests
      surfaceNotification_def split: settled.splits option.splits)

lemma commitToGitHub_put_tags:
  "\<exists>sent. put_tags (requests (commitToGitHub yaml selectedTerritoryId nextState label env st))
             = put_tags (requests st) @ sent
         \<and> (sent = [] \<or> (\<exists>tag. fetched_tag env = Some tag \<and> sent = [tag]))"
proof (cases "patValue st = ''''")
  case True
  then show ?thesis by (simp add: commitToGitHub_def surfaceNotification_def)
next
  case False
  let ?st1 = "surfaceNotification Info (Salvando_alteracoes label) (st\<lparr>isSaving := True\<rparr>)"
  let ?f = "\<lambda>e st'. surfaceNotification Error (error_message e Falha_ao_salvar_alteracoes) st'"
  have "\<And>e st'. requests (?f e st') = requests st'"
    by (simp add: surfaceNotification_def)
  from commit_try_requests [of ?f, OF this, of yaml selectedTerritoryId nextState env ?st1]
  obtain sent where s: "requests (case commit_try yaml selectedTerritoryId nextState env ?st1 of
                       Completed st' \<Rightarrow> st' | Threw e st' \<Rightarrow> ?f e st') = requests ?st1 @ sent"
    "put_tags sent = [] \<or> (\<exists>tag. fetched_tag env = Some tag \<and> put_tags sent = [tag])"
    by blast
  have "requests (commitToGitHub yaml selectedTerritoryId nextState label env st) = requests st @ sent"
    using False s(1) by (simp add: commitToGitHub_def Let_def surfaceNotification_def)
  with s(2) show ?thesis by (auto simp: put_tags_append)
qed

lemma commitToGitHub_sends:
  assumes "patValue st \<noteq> ''''" and "dump yaml nextState = Fulfilled yamlString"
    and "encodeBase64 yamlString = Some encoded" and "fetched_tag env = Some tag"
  shows "\<exists>rest. requests (commitToGitHub yaml selectedTerritoryId nextState label env st)
           = requests st @ [GET (Some (patValue st)),
                            PUT (patValue st) \<lparr>body_content = encoded, body_sha = tag\<rparr>] @ rest
         \<and> put_tags rest = []"
  using assms
  by (auto simp: commitToGitHub_def commit_try_def Let_def fetched_tag_def
      loadRemoteState_requests surfaceNotification_def
      split: settled.splits option.splits if_splits)

lemma commitToGitHub_ignores_remoteSha:
  "requests (commitToGitHub yaml selectedTerritoryId nextState label env (st\<lparr>remoteSha := cached\<rparr>))
     = requests (commitToGitHub yaml selectedTerritoryId nextState label env st)"
  by (auto simp: commitToGitHub_def commit_try_def Let_def loadRemoteState_requests
      surfaceNotification_def split: settled.splits option.splits)


text \<open>
  C7. The write request of a commit carries the version tag that the same commit has
  just read: the log grows by the read, then the write with the tag of that read's
  answer, then nothing but reads; a commit sends at most one write, and only with
  such a tag; the tag remembered from the last load (\<open>remoteSha\<close>) plays no part; and
  of two commits in a row, the first writes with the tag of its own read and the
  second with the tag of its own.
\<close>

theorem commit_uses_freshly_read_tag:
  "(\<exists>sent. put_tags (requests (commitToGitHub yaml selectedTerritoryId nextState label env st))
              = put_tags (requests st) @ sent
          \<and> (sent = [] \<or> (\<exists>tag. fetched_tag env = Some tag \<and> sent = [tag])))
   \<and> (patValue st \<noteq> '''' \<longrightarrow> dump yaml nextState = Fulfilled yamlString \<longrightarrow>
        encodeBase64 yamlString = Some encoded \<longrightarrow> fetched_tag env = Some tag \<longrightarrow>
        (\<exists>rest. requests (commitToGitHub yaml selectedTerritoryId nextState label env st)
                   = requests st @ [GET (Some (patValue st)),
                        PUT (patValue st) \<lparr>body_content = encoded, body_sha = tag\<rparr>] @ rest
               \<and> put_tags rest = []))
   \<and> requests (commitToGitHub yaml selectedTerritoryId nextState label env (st\<lparr>remoteSha := cached\<rparr>))
       = requests (commitToGitHub yaml selectedTerritoryId nextState label env st)
   \<and> (patValue st \<noteq> '''' \<longrightarrow> dump yaml nextState = Fulfilled yamlString \<longrightarrow>
        encodeBase64 yamlString = Some encoded \<longrightarrow> fetched_tag env = Some tag \<longrightarrow>
        dump yaml second_state = Fulfilled second_yaml \<longrightarrow> encodeBase64 second_yaml = Some second_encoded \<longrightarrow>
        fetched_tag second_env = Some second_tag \<longrightarrow>
        put_tags (requests (commitToGitHub yaml selectedTerritoryId second_state second_label second_env
                             (commitToGitHub yaml selectedTerritoryId nextState label env st)))
          = put_tags (requests st) @ [tag, second_tag])"
proof -
  have two: "put_tags (requests (commitToGitHub yaml selectedTerritoryId second_state second_label second_env
                             (commitToGitHub yaml selectedTerritoryId nextState label env st)))
          = put_tags (requests st) @ [tag, second_tag]"
    if h: "patValue st \<noteq> ''''" "dump yaml nextState = Fulfilled yamlString"
      "encodeBase64 yamlString = Some encoded" "fetched_tag env = Some tag"
      "dump yaml second_state = Fulfilled second_yaml" "encodeBase64 second_yaml = Some second_encoded"
      "fetched_tag second_env = Some second_tag"
  proof -
    let ?st1 = "commitToGitHub yaml selectedTerritoryId nextState label env st"
    have p1: "patValue ?st1 \<noteq> ''''"
      using h(1) by (simp add: commitToGitHub_patValue)
    from commitToGitHub_sends [OF h(1-4), of selectedTerritoryId label]
    have first: "put_tags (requests ?st1) = put_tags (requests st) @ [tag]"
      by (auto simp: put_tags_append)
    from commitToGitHub_sends [OF p1 h(5-7), of selectedTerritoryId second_label]
    have "put_tags (requests (commitToGitHub yaml selectedTerritoryId second_state second_label second_env ?st1))
            = put_tags (requests ?st1) @ [second_tag]"
      by (auto simp: put_tags_append)
    with first show ?thesis by simp
  qed
  have sends: "patValue st \<noteq> [] \<longrightarrow> dump yaml nextState = Fulfilled yamlString \<longrightarrow>
        encodeBase64 yamlString = Some encoded \<longrightarrow> fetched_tag env = Some tag \<longrightarrow>
        (\<exists>rest. requests (commitToGitHub yaml selectedTerritoryId nextState label env st)
                   = requests st @ [GET (Some (patValue st)),
                        PUT (patValue st) \<lparr>body_content = encoded, body_sha = tag\<rparr>] @ rest
               \<and> put_tags rest = [])"
    by (intro impI) (rule commitToGitHub_sends)
  show ?thesis
    using commitToGitHub_put_tags [where st = st and env = env] sends
      commitToGitHub_ignores_remoteSha two
    by (intro conjI impI) blast+
qed

theorem commit_uses_freshly_read_tag_witness:
  "put_tags (requests (commitToGitHub sample_yaml None sample_document CRUD_de_quadra
                        (accepting_env ''tag2'')
                        (commitToGitHub sample_yaml None sample_document Sequenciamento_da_quadra
                          (accepting_env ''tag1'') sample_component)))
     = [Some ''tag1'', Some ''tag2'']
   \<and> remoteSha sample_component = ''tag0''"
proof -
  have p: "patValue sample_component \<noteq> ''''"
    by (simp add: sample_component_def)
  have d: "dump sample_yaml sample_document = Fulfilled sample_yaml_text"
    by (simp add: sample_yaml_def)
  have e: "encodeBase64 sample_yaml_text = Some (ascii ''YTogMQ=='')"
    by (simp add: sample_yaml_text_def ascii_def encodeBase64_def TextEncoder_encode_def
        utf8_bytes_def is_lead_surrogate_def is_trail_surrogate_def String_fromCharCode_def
        btoa_def b64_symbol_def)
  have t: "fetched_tag (accepting_env ''tag1'') = Some (Some ''tag1'')"
    "fetched_tag (accepting_env ''tag2'') = Some (Some ''tag2'')"
    by (simp_all add: fetched_tag_def accepting_env_def response_with_def response_ok_def)
  have r: "requests sample_component = []" "remoteSha sample_component = ''tag0''"
    by (simp_all add: sample_component_def)
  from commit_uses_freshly_read_tag
    [where st = sample_component and yaml = sample_yaml and nextState = sample_document
       and second_state = sample_document and yamlString = sample_yaml_text
       and second_yaml = sample_yaml_text and encoded = "ascii ''YTogMQ==''"
       and second_encoded = "ascii ''YTogMQ==''" and env = "accepting_env ''tag1''"
       and second_env = "accepting_env ''tag2''" and tag = "Some ''tag1''" and second_tag = "Some ''tag2''"
       and label = Sequenciamento_da_quadra and second_label = CRUD_de_quadra]
  show ?thesis
    using p d e t r by simp
qed


section \<open>Failures while loading\<close>






section \<open>Properties of the transport codec: base64\<close>

lemma b64_value_symbol: "v < 64 \<Longrightarrow> b64_value (b64_symbol v) = Some v"
  by (auto simp: b64_value_def b64_symbol_def)

lemma b64_symbol_plain: "v < 64 \<Longrightarrow> \<not> is_ascii_whitespace (b64_symbol v) \<and> b64_symbol v \<noteq> 61"
  by (auto simp: b64_symbol_def is_ascii_whitespace_def)

lemma b64_encode_groups:
  "b64_encode bs = map b64_symbol (b64_groups bs) @ b64_padding bs"
  by (induction bs rule: b64_encode.induct) (simp_all add: b64_padding_def)

lemma b64_groups_small:
  "list_all (\<lambda>b. b < 256) bs \<Longrightarrow> list_all (\<lambda>v. v < 64) (b64_groups bs)"
  by (induction bs rule: b64_groups.induct) auto

lemma b64_groups_length:
  "length (b64_groups bs) mod 4 = (if length bs mod 3 = 0 then 0 else length bs mod 3 + 1)"
proof (induction bs rule: b64_groups.induct)
  case (4 a b c rest)
  have "length (a # b # c # rest) mod 3 = length rest mod 3" by simp
  moreover have "length (b64_groups (a # b # c # rest)) mod 4 = length (b64_groups rest) mod 4"
    by simp
  ultimately show ?case using 4 by presburger
qed simp_all

lemma b64_decode_groups:
  "list_all (\<lambda>b. b < 256) bs \<Longrightarrow> b64_decode_values (b64_groups bs) = bs"
  by (induction bs rule: b64_groups.induct) auto

lemma b64_encode_length: "length (b64_encode bs) mod 4 = 0"
  by (induction bs rule: b64_encode.induct) simp_all

lemma b64_encode_no_whitespace:
  "list_all (\<lambda>b. b < 256) bs \<Longrightarrow>
   filter (\<lambda>c. \<not> is_ascii_whitespace c) (b64_encode bs) = b64_encode bs"
proof -
  assume "list_all (\<lambda>b. b < 256) bs"
  then have "list_all (\<lambda>v. v < 64) (b64_groups bs)" by (rule b64_groups_small)
  then have "\<forall>c \<in> set (map b64_symbol (b64_groups bs)). \<not> is_ascii_whitespace c"
    by (auto simp: list_all_iff b64_symbol_plain)
  moreover have "\<forall>c \<in> set (b64_padding bs). \<not> is_ascii_whitespace c"
    by (simp add: b64_padding_def is_ascii_whitespace_def)
  ultimately show ?thesis
    by (simp add: b64_encode_groups filter_id_conv)
qed

lemma strip_padding_encode:
  assumes "list_all (\<lambda>b. b < 256) bs"
  shows "strip_padding (b64_encode bs) = map b64_symbol (b64_groups bs)"
proof -
  let ?vs = "b64_groups bs"
  have small: "list_all (\<lambda>v. v < 64) ?vs" using assms by (rule b64_groups_small)
  have len: "length (b64_encode bs) mod 4 = 0" by (rule b64_encode_length)
  consider (one) "length bs mod 3 = 1" | (two) "length bs mod 3 = 2" | (zero) "length bs mod 3 = 0"
    by linarith
  then show ?thesis
  proof cases
    case one
    then have "b64_encode bs = map b64_symbol ?vs @ [61, 61]"
      by (simp add: b64_encode_groups b64_padding_def)
    then show ?thesis using len by (simp add: strip_padding_def)
  next
    case two
    then have e: "b64_encode bs = map b64_symbol ?vs @ [61]"
      by (simp add: b64_encode_groups b64_padding_def)
    have "length ?vs mod 4 = 3" using two by (simp add: b64_groups_length)
    then have "?vs \<noteq> []" by auto
    then obtain ys y where s: "?vs = ys @ [y]" by (cases ?vs rule: rev_cases) auto
    then have "y < 64" using small by simp
    then have "b64_symbol y \<noteq> 61" by (simp add: b64_symbol_plain)
    then show ?thesis
      using len e by (simp add: strip_padding_def s)
  next
    case zero
    then have e: "b64_encode bs = map b64_symbol ?vs"
      by (simp add: b64_encode_groups b64_padding_def)
    show ?thesis
    proof (cases ?vs rule: rev_cases)
      case Nil
      then show ?thesis using e by (simp add: strip_padding_def)
    next
      case (snoc ys y)
      then have "y < 64" using small by simp
      then have "b64_symbol y \<noteq> 61" by (simp add: b64_symbol_plain)
      then show ?thesis
        using len e snoc by (simp add: strip_padding_def split: list.splits)
    qed
  qed
qed

lemma those_b64_values:
  "list_all (\<lambda>v. v < 64) vs \<Longrightarrow> those (map (b64_value \<circ> b64_symbol) vs) = Some vs"
  by (induction vs) (simp_all add: b64_value_symbol)

lemma atob_b64_encode:
  assumes "list_all (\<lambda>b. b < 256) bs"
  shows "atob (b64_encode bs) = Some bs"
proof -
  have small: "list_all (\<lambda>v. v < 64) (b64_groups bs)" using assms by (rule b64_groups_small)
  have "length (map b64_symbol (b64_groups bs)) mod 4 \<noteq> 1"
    by (simp add: b64_groups_length)
  then show ?thesis
    using assms
    by (simp add: atob_def Let_def b64_encode_no_whitespace strip_padding_encode
        those_b64_values [OF small] b64_decode_groups)
qed

lemma fold_fromCharCode:
  "fold (\<lambda>v acc. acc @ [String_fromCharCode v]) bytes acc0 = acc0 @ map String_fromCharCode bytes"
  by (induction bytes arbitrary: acc0) simp_all

lemma fromCharCode_bytes:
  "list_all (\<lambda>b. b < 256) bytes \<Longrightarrow> map String_fromCharCode bytes = bytes"
  by (induction bytes) (simp_all add: String_fromCharCode_def)

lemma btoa_bytes: "list_all (\<lambda>b. b < 256) bytes \<Longrightarrow> btoa bytes = Some (b64_encode bytes)"
  by (induction bytes) (simp_all add: btoa_def split: if_splits)

lemma Uint8Array_from_bytes: "list_all (\<lambda>b. b < 256) bytes \<Longrightarrow> Uint8Array_from bytes = bytes"
  by (induction bytes) (simp_all add: Uint8Array_from_def)

section \<open>Properties of the transport codec: UTF-8\<close>

lemma mod_above_multiple: "q < n \<Longrightarrow> (k * n + q) mod n = (q::nat)"
  by simp

lemma lead_payload:
  "q < 32 \<Longrightarrow> (192 + q) mod 32 = (q::nat)"
  "q < 16 \<Longrightarrow> (224 + q) mod 16 = (q::nat)"
  "q < 8 \<Longrightarrow> (240 + q) mod 8 = (q::nat)"
  using mod_above_multiple [of q 32 6] mod_above_multiple [of q 16 14]
    mod_above_multiple [of q 8 30]
  by simp_all

lemma continuation_payload: "(128 + r mod 64) mod 64 = (r::nat) mod 64"
  using mod_mult_self3 [of 2 64 "r mod 64"] by simp

lemma continuation_range: "128 \<le> 128 + (r::nat) mod 64 \<and> 128 + r mod 64 \<le> 191"
proof -
  have "r mod 64 < 64" by simp
  then show ?thesis by linarith
qed

lemma shift_in:
  "(cp::nat) div 64 * 64 + cp mod 64 = cp"
  "(cp::nat) div 4096 * 64 + cp div 64 mod 64 = cp div 64"
  "(cp::nat) div 262144 * 64 + cp div 4096 mod 64 = cp div 4096"
proof -
  show "cp div 64 * 64 + cp mod 64 = cp" by simp
  have "cp div 4096 = cp div 64 div 64" by (simp add: div_mult2_eq)
  then show "cp div 4096 * 64 + cp div 64 mod 64 = cp div 64" by simp
  have "cp div 262144 = cp div 4096 div 64" by (simp add: div_mult2_eq)
  then show "cp div 262144 * 64 + cp div 4096 mod 64 = cp div 4096" by simp
qed

lemma utf8_bytes_small: "cp < 0x110000 \<Longrightarrow> list_all (\<lambda>b. b < 256) (utf8_bytes cp)"
proof -
  assume c: "cp < 0x110000"
  have m: "128 + n mod 64 < 256" for n :: nat
    using continuation_range [of n] by linarith
  have "cp < 0x800 \<Longrightarrow> 192 + cp div 64 < 256" by arith
  moreover have "cp < 0x10000 \<Longrightarrow> 224 + cp div 4096 < 256" by arith
  moreover have "240 + cp div 262144 < 256" using c by arith
  ultimately show ?thesis
    by (simp add: utf8_bytes_def m)
qed

lemma handler_lead:
  "b \<le> 0x7F \<Longrightarrow> utf8_handler utf8_start b = Code_point b"
  "0xC2 \<le> b \<Longrightarrow> b \<le> 0xDF \<Longrightarrow>
     utf8_handler utf8_start b
       = Continue \<lparr>code_point = b mod 32, bytes_seen = 0, bytes_needed = 1,
                   lower_boundary = 0x80, upper_boundary = 0xBF\<rparr>"
  "0xE0 \<le> b \<Longrightarrow> b \<le> 0xEF \<Longrightarrow>
     utf8_handler utf8_start b
       = Continue \<lparr>code_point = b mod 16, bytes_seen = 0, bytes_needed = 2,
                   lower_boundary = (if b = 0xE0 then 0xA0 else 0x80),
                   upper_boundary = (if b = 0xED then 0x9F else 0xBF)\<rparr>"
  "0xF0 \<le> b \<Longrightarrow> b \<le> 0xF4 \<Longrightarrow>
     utf8_handler utf8_start b
       = Continue \<lparr>code_point = b mod 8, bytes_seen = 0, bytes_needed = 3,
                   lower_boundary = (if b = 0xF0 then 0x90 else 0x80),
                   upper_boundary = (if b = 0xF4 then 0x8F else 0xBF)\<rparr>"
  by (simp_all add: utf8_handler_def utf8_start_def)

lemma handler_inside:
  "n \<noteq> 0 \<Longrightarrow> lo \<le> b \<Longrightarrow> b \<le> hi \<Longrightarrow>
   utf8_handler \<lparr>code_point = c, bytes_seen = s, bytes_needed = n,
                 lower_boundary = lo, upper_boundary = hi\<rparr> b
     = (if Suc s \<noteq> n
        then Continue \<lparr>code_point = c * 64 + b mod 64, bytes_seen = Suc s, bytes_needed = n,
                        lower_boundary = 0x80, upper_boundary = 0xBF\<rparr>
        else Code_point (c * 64 + b mod 64))"
  by (simp add: utf8_handler_def Let_def)


lemma utf8_start_needed: "bytes_needed utf8_start = 0"
  by (simp add: utf8_start_def)

lemma decode_continuations:
  "lo \<le> 128 + r1 mod 64 \<Longrightarrow> 128 + r1 mod 64 \<le> hi \<Longrightarrow>
   utf8_decode \<lparr>code_point = c, bytes_seen = 0, bytes_needed = 1,
                lower_boundary = lo, upper_boundary = hi\<rparr>
     ((128 + r1 mod 64) # rest)
     = (c * 64 + r1 mod 64) # utf8_decode utf8_start rest"
  "lo \<le> 128 + r1 mod 64 \<Longrightarrow> 128 + r1 mod 64 \<le> hi \<Longrightarrow>
   utf8_decode \<lparr>code_point = c, bytes_seen = 0, bytes_needed = 2,
                lower_boundary = lo, upper_boundary = hi\<rparr>
     ((128 + r1 mod 64) # (128 + r2 mod 64) # rest)
     = ((c * 64 + r1 mod 64) * 64 + r2 mod 64) # utf8_decode utf8_start rest"
  "lo \<le> 128 + r1 mod 64 \<Longrightarrow> 128 + r1 mod 64 \<le> hi \<Longrightarrow>
   utf8_decode \<lparr>code_point = c, bytes_seen = 0, bytes_needed = 3,
                lower_boundary = lo, upper_boundary = hi\<rparr>
     ((128 + r1 mod 64) # (128 + r2 mod 64) # (128 + r3 mod 64) # rest)
     = (((c * 64 + r1 mod 64) * 64 + r2 mod 64) * 64 + r3 mod 64) # utf8_decode utf8_start rest"
  using continuation_range [of r2] continuation_range [of r3]
  by (simp_all add: handler_inside continuation_payload)

lemma decode_one_byte:
  assumes "cp < 0x80"
  shows "utf8_decode utf8_start (utf8_bytes cp @ rest) = cp # utf8_decode utf8_start rest"
  using assms by (simp add: utf8_bytes_def handler_lead)

lemma decode_two_bytes:
  assumes "0x80 \<le> cp" and "cp < 0x800"
  shows "utf8_decode utf8_start (utf8_bytes cp @ rest) = cp # utf8_decode utf8_start rest"
proof -
  have q: "cp div 64 < 32" "2 \<le> cp div 64" using assms by arith+
  then have b1: "0xC2 \<le> 192 + cp div 64" "192 + cp div 64 \<le> 0xDF" by linarith+
  have bytes: "utf8_bytes cp = [192 + cp div 64, 128 + cp mod 64]"
    using assms by (simp add: utf8_bytes_def)
  have second: "128 \<le> 128 + cp mod 64" "128 + cp mod 64 \<le> 191"
    using continuation_range [of cp] by simp_all
  have "utf8_decode utf8_start (utf8_bytes cp @ rest)
          = utf8_decode \<lparr>code_point = cp div 64, bytes_seen = 0, bytes_needed = 1,
                          lower_boundary = 0x80, upper_boundary = 0xBF\<rparr>
              ((128 + cp mod 64) # rest)"
    by (simp add: bytes handler_lead(2) [OF b1] lead_payload(1) [OF q(1)])
  also have "\<dots> = (cp div 64 * 64 + cp mod 64) # utf8_decode utf8_start rest"
    using second by (simp only: decode_continuations(1))
  finally show ?thesis by (simp add: shift_in)
qed

lemma decode_three_bytes:
  assumes "0x800 \<le> cp" and "cp < 0x10000" and "\<not> (0xD800 \<le> cp \<and> cp \<le> 0xDFFF)"
  shows "utf8_decode utf8_start (utf8_bytes cp @ rest) = cp # utf8_decode utf8_start rest"
proof -
  let ?b1 = "224 + cp div 4096" and ?b2 = "128 + cp div 64 mod 64"
  let ?lo = "if ?b1 = 0xE0 then 0xA0 else (0x80::nat)"
  let ?hi = "if ?b1 = 0xED then 0x9F else (0xBF::nat)"
  have q: "cp div 4096 < 16" using assms by arith
  then have b1: "0xE0 \<le> ?b1" "?b1 \<le> 0xEF" by linarith+
  have bytes: "utf8_bytes cp = [?b1, ?b2, 128 + cp mod 64]"
    using assms by (simp add: utf8_bytes_def)
  have low: "160 \<le> ?b2" if "cp div 4096 = 0"
  proof -
    from that have "cp < 4096" by arith
    then have "cp div 64 < 64" by arith
    moreover have "32 \<le> cp div 64" using assms(1) by arith
    ultimately show ?thesis by simp
  qed
  have high: "?b2 \<le> 159" if "cp div 4096 = 13"
  proof -
    from that have "53248 \<le> cp" "cp < 57344" by arith+
    with assms(3) have "cp < 55296" by linarith
    then have "cp div 64 < 864" by arith
    moreover have "cp div 64 = 13 * 64 + cp div 64 mod 64"
      using shift_in(2) [of cp] that by simp
    ultimately show ?thesis by linarith
  qed
  have second: "?lo \<le> ?b2" "?b2 \<le> ?hi"
    using low high continuation_range [of "cp div 64"] by auto
  have "utf8_decode utf8_start (utf8_bytes cp @ rest)
          = utf8_decode \<lparr>code_point = cp div 4096, bytes_seen = 0, bytes_needed = 2,
                          lower_boundary = ?lo, upper_boundary = ?hi\<rparr>
              (?b2 # (128 + cp mod 64) # rest)"
    by (simp add: bytes handler_lead(3) [OF b1] lead_payload(2) [OF q])
  also have "\<dots> = ((cp div 4096 * 64 + cp div 64 mod 64) * 64 + cp mod 64)
                    # utf8_decode utf8_start rest"
    by (rule decode_continuations(2) [OF second])
  finally show ?thesis by (simp add: shift_in)
qed

lemma decode_four_bytes:
  assumes "0x10000 \<le> cp" and "cp < 0x110000"
  shows "utf8_decode utf8_start (utf8_bytes cp @ rest) = cp # utf8_decode utf8_start rest"
proof -
  let ?b1 = "240 + cp div 262144" and ?b2 = "128 + cp div 4096 mod 64"
  let ?lo = "if ?b1 = 0xF0 then 0x90 else (0x80::nat)"
  let ?hi = "if ?b1 = 0xF4 then 0x8F else (0xBF::nat)"
  have q: "cp div 262144 < 5" using assms by arith
  then have q8: "cp div 262144 < 8" by linarith
  from q have b1: "0xF0 \<le> ?b1" "?b1 \<le> 0xF4" by linarith+
  have bytes: "utf8_bytes cp = [?b1, ?b2, 128 + cp div 64 mod 64, 128 + cp mod 64]"
    using assms by (simp add: utf8_bytes_def)
  have low: "144 \<le> ?b2" if "cp div 262144 = 0"
  proof -
    from that have "cp < 262144" by arith
    then have "cp div 4096 < 64" by arith
    moreover have "16 \<le> cp div 4096" using assms(1) by arith
    ultimately show ?thesis by simp
  qed
  have high: "?b2 \<le> 143" if "cp div 262144 = 4"
  proof -
    have "cp div 4096 < 272" using assms(2) by arith
    moreover have "cp div 4096 = 4 * 64 + cp div 4096 mod 64"
      using shift_in(3) [of cp] that by simp
    ultimately show ?thesis by linarith
  qed
  have second: "?lo \<le> ?b2" "?b2 \<le> ?hi"
    using low high continuation_range [of "cp div 4096"] by auto
  have "utf8_decode utf8_start (utf8_bytes cp @ rest)
          = utf8_decode \<lparr>code_point = cp div 262144, bytes_seen = 0, bytes_needed = 3,
                          lower_boundary = ?lo, upper_boundary = ?hi\<rparr>
              (?b2 # (128 + cp div 64 mod 64) # (128 + cp mod 64) # rest)"
    by (simp add: bytes handler_lead(4) [OF b1] lead_payload(3) [OF q8])
  also have "\<dots> = (((cp div 262144 * 64 + cp div 4096 mod 64) * 64 + cp div 64 mod 64) * 64
                      + cp mod 64) # utf8_decode utf8_start rest"
    by (rule decode_continuations(3) [OF second])
  finally show ?thesis by (simp add: shift_in)
qed

lemma decode_scalar_value:
  "scalar_value cp \<Longrightarrow>
   utf8_decode utf8_start (utf8_bytes cp @ rest) = cp # utf8_decode utf8_start rest"
  using decode_one_byte [of cp rest] decode_two_bytes [of cp rest]
    decode_three_bytes [of cp rest] decode_four_bytes [of cp rest]
  unfolding scalar_value_def by linarith

lemma utf8_decode_encode:
  "list_all scalar_value cps \<Longrightarrow> utf8_decode utf8_start (concat (map utf8_bytes cps)) = cps"
  by (induction cps) (simp_all add: decode_scalar_value utf8_start_needed)



section \<open>Properties of the transport codec: the round trip\<close>

lemma pair_value:
  assumes "is_lead_surrogate c" and "is_trail_surrogate d"
  shows "scalar_value (0x10000 + (c - 0xD800) * 0x400 + (d - 0xDC00))"
    and "utf16_units (0x10000 + (c - 0xD800) * 0x400 + (d - 0xDC00)) = [c, d]"
proof -
  let ?a = "c - 0xD800" and ?b = "d - 0xDC00"
  have a: "?a < 0x400" "0xD800 + ?a = c" and b: "?b < 0x400" "0xDC00 + ?b = d"
    using assms unfolding is_lead_surrogate_def is_trail_surrogate_def by linarith+
  have "?a * 0x400 + ?b < 0x100000" using a(1) b(1) by linarith
  then show "scalar_value (0x10000 + ?a * 0x400 + ?b)"
    by (simp add: scalar_value_def)
  have "(?a * 0x400 + ?b) div 0x400 = ?a" "(?a * 0x400 + ?b) mod 0x400 = ?b"
    using b(1) by simp_all
  then show "utf16_units (0x10000 + ?a * 0x400 + ?b) = [c, d]"
    using a(2) b(2) by (simp add: utf16_units_def)
qed

lemma plain_unit:
  assumes "c < 65536" and "\<not> is_lead_surrogate c" and "\<not> is_trail_surrogate c"
  shows "scalar_value c" and "utf16_units c = [c]"
  using assms
  by (auto simp: scalar_value_def utf16_units_def is_lead_surrogate_def is_trail_surrogate_def)

lemma replacement_scalar: "scalar_value 0xFFFD"
  by (simp add: scalar_value_def)

lemma scalars_of_string: "js_string s \<Longrightarrow> list_all scalar_value (to_scalar_values s)"
  by (induction s rule: to_scalar_values.induct)
     (auto simp: js_string_def pair_value(1) plain_unit(1) replacement_scalar)

lemma utf16_of_scalars:
  "js_string s \<Longrightarrow> well_formed_utf16 s \<Longrightarrow>
   concat (map utf16_units (to_scalar_values s)) = s"
  by (induction s rule: to_scalar_values.induct)
     (auto simp: js_string_def pair_value(2) plain_unit(2) split: if_splits)

lemma no_bom_to_drop:
  "\<not> starts_with_bom s \<Longrightarrow> drop_bom (to_scalar_values s) = to_scalar_values s"
proof (cases s rule: to_scalar_values.cases)
  case 1
  then show ?thesis by (simp add: drop_bom_def)
next
  case (2 c)
  assume "\<not> starts_with_bom s"
  with 2 show ?thesis by (simp add: drop_bom_def starts_with_bom_def)
next
  case (3 c d ds)
  assume "\<not> starts_with_bom s"
  with 3 show ?thesis by (simp add: drop_bom_def starts_with_bom_def)
qed

lemma encoded_bytes_small:
  "js_string s \<Longrightarrow> list_all (\<lambda>b. b < 256) (TextEncoder_encode s)"
proof -
  assume "js_string s"
  then have "list_all scalar_value (to_scalar_values s)" by (rule scalars_of_string)
  then have "\<forall>cp \<in> set (to_scalar_values s). list_all (\<lambda>b. b < 256) (utf8_bytes cp)"
    by (auto simp: list_all_iff scalar_value_def intro: utf8_bytes_small [unfolded list_all_iff, rule_format])
  then show ?thesis
    by (auto simp: TextEncoder_encode_def list_all_iff)
qed

lemma encodeBase64_value:
  "js_string s \<Longrightarrow> encodeBase64 s = Some (b64_encode (TextEncoder_encode s))"
  by (simp add: encodeBase64_def Let_def fold_fromCharCode
      fromCharCode_bytes [OF encoded_bytes_small] btoa_bytes [OF encoded_bytes_small])

lemma decodeBase64_encoded:
  assumes "js_string s"
  shows "decodeBase64 (b64_encode (TextEncoder_encode s))
           = Some (concat (map utf16_units (drop_bom (to_scalar_values s))))"
proof -
  have small: "list_all (\<lambda>b. b < 256) (TextEncoder_encode s)"
    using assms by (rule encoded_bytes_small)
  have "utf8_decode utf8_start (TextEncoder_encode s) = to_scalar_values s"
    unfolding TextEncoder_encode_def
    by (rule utf8_decode_encode [OF scalars_of_string [OF assms]])
  then show ?thesis
    by (simp add: decodeBase64_def atob_b64_encode [OF small] Uint8Array_from_bytes [OF small]
        TextDecoder_decode_def)
qed

text \<open>
  C9, as the code has it. A string without unpaired surrogates that does not start
  with U+FEFF comes back from \<open>decodeBase64\<close> as it went into \<open>encodeBase64\<close>; and
  \<open>encodeBase64\<close> never throws. For any string, what comes back is the string with
  each unpaired surrogate replaced by U+FFFD and without a leading U+FEFF.
\<close>

theorem base64_round_trip:
  assumes "js_string s"
  shows "\<exists>payload. encodeBase64 s = Some payload
           \<and> decodeBase64 payload
               = Some (concat (map utf16_units (drop_bom (to_scalar_values s))))
           \<and> (well_formed_utf16 s \<longrightarrow> \<not> starts_with_bom s \<longrightarrow> decodeBase64 payload = Some s)"
  using assms
  by (simp add: encodeBase64_value decodeBase64_encoded no_bom_to_drop utf16_of_scalars)

theorem base64_round_trip_witness:
  "js_string [0xE9, 0x20AC, 0xD83D, 0xDE00] \<and> well_formed_utf16 [0xE9, 0x20AC, 0xD83D, 0xDE00]
   \<and> \<not> starts_with_bom [0xE9, 0x20AC, 0xD83D, 0xDE00]
   \<and> encodeBase64 [0xE9, 0x20AC, 0xD83D, 0xDE00] = Some (ascii ''w6nigqzwn5iA'')
   \<and> decodeBase64 (ascii ''w6nigqzwn5iA'') = Some [0xE9, 0x20AC, 0xD83D, 0xDE00]"
proof -
  have a: "js_string [0xE9, 0x20AC, 0xD83D, 0xDE00]"
    "well_formed_utf16 [0xE9, 0x20AC, 0xD83D, 0xDE00]"
    "\<not> starts_with_bom [0xE9, 0x20AC, 0xD83D, 0xDE00]"
    by (simp_all add: js_string_def is_lead_surrogate_def is_trail_surrogate_def
        starts_with_bom_def)
  have e: "encodeBase64 [0xE9, 0x20AC, 0xD83D, 0xDE00] = Some (ascii ''w6nigqzwn5iA'')"
    by (simp add: ascii_def encodeBase64_def TextEncoder_encode_def utf8_bytes_def
        is_lead_surrogate_def is_trail_surrogate_def String_fromCharCode_def btoa_def
        b64_symbol_def)
  from base64_round_trip [OF a(1)] obtain payload where
    p: "encodeBase64 [0xE9, 0x20AC, 0xD83D, 0xDE00] = Some payload" and
    r: "well_formed_utf16 [0xE9, 0x20AC, 0xD83D, 0xDE00] \<longrightarrow>
        \<not> starts_with_bom [0xE9, 0x20AC, 0xD83D, 0xDE00] \<longrightarrow>
        decodeBase64 payload = Some [0xE9, 0x20AC, 0xD83D, 0xDE00]"
    by blast
  from p e have "payload = ascii ''w6nigqzwn5iA''" by simp
  with r a(2,3) have "decodeBase64 (ascii ''w6nigqzwn5iA'') = Some [0xE9, 0x20AC, 0xD83D, 0xDE00]"
    by blast
  with a e show ?thesis by blast
qed

text \<open>
  The claim C9 is about every string. Two strings that do not come back: one that
  starts with U+FEFF (the decoder removes it), and one that holds an unpaired surrogate
  (the encoder writes U+FFFD for it).
\<close>

theorem base64_round_trip_fails:
  "encodeBase64 [0xFEFF, 97] = Some (ascii ''77u/YQ=='')
   \<and> decodeBase64 (ascii ''77u/YQ=='') = Some [97]
   \<and> encodeBase64 [0xD83D] = Some (ascii ''77+9'')
   \<and> decodeBase64 (ascii ''77+9'') = Some [0xFFFD]"
proof -
  have e: "encodeBase64 [0xFEFF, 97] = Some (ascii ''77u/YQ=='')"
    "encodeBase64 [0xD83D] = Some (ascii ''77+9'')"
    by (simp_all add: ascii_def encodeBase64_def TextEncoder_encode_def utf8_bytes_def
        is_lead_surrogate_def is_trail_surrogate_def String_fromCharCode_def btoa_def
        b64_symbol_def)
  have d: "decodeBase64 (ascii ''77u/YQ=='') = Some [97]"
    "decodeBase64 (ascii ''77+9'') = Some [0xFFFD]"
    by (simp_all add: ascii_def decodeBase64_def atob_def is_ascii_whitespace_def
        strip_padding_def b64_value_def Uint8Array_from_def TextDecoder_decode_def
        utf8_handler_def utf8_start_def drop_bom_def utf16_units_def Let_def)
  show ?thesis using e d by simp
qed



end
